theory Spec2Isabelle
  imports Complex_Main "HOL-Library.Multiset" "HOL-Library.Product_Lexorder"
begin

section \<open>Values of the host language\<close>

text \<open>
  Rule payloads and resource data are JSON values; \<open>JNum x\<close> is the numeric literal of
  value \<open>x\<close>, which the runtime holds as a double. \<open>JFunction s\<close> is a built-in function
  that a property lookup finds on \<open>Object.prototype\<close>, with the text \<open>s\<close> that \<open>String\<close>
  gives for it. A thrown JavaScript error is a value of \<open>jsError\<close> carrying its message; a
  function that may throw returns \<open>jsError + 'a\<close>, with \<open>Inl\<close> for the throw.
\<close>

datatype json =
    JNull
  | JBool bool
  | JNum real
  | JStr string
  | JArr "json list"
  | JObj "(string \<times> json) list"
  | JFunction string

text \<open>A JavaScript number: a double.\<close>

datatype number = NaN | NegInfinity | Finite real | PosInfinity

datatype jsError = JsError string

fun errorMessage :: "jsError \<Rightarrow> string" where
  "errorMessage (JsError m) = m"

text \<open>
  The global object as far as the engine calls into it: what \<open>console.error\<close> and
  \<open>console.warn\<close> do when they are called with a given first argument, \<open>None\<close> when the
  call returns and \<open>Some e\<close> when it throws \<open>e\<close>. Both are writable properties, and text
  run by \<open>new Function\<close> reaches them. The other built-ins that the engine calls
  (\<open>Promise\<close>, the methods of arrays and strings, \<open>setImmediate\<close>) are taken as the
  runtime provides them.
\<close>

record Globals =
  console_error :: "string \<Rightarrow> jsError option"
  console_warn :: "string \<Rightarrow> jsError option"

text \<open>The global object of a runtime that nothing has touched.\<close>

definition initialGlobals :: Globals where
  "initialGlobals = \<lparr> console_error = (\<lambda>label. None), console_warn = (\<lambda>label. None) \<rparr>"

text \<open>A computation that runs against the global object: it returns a value or throws, and
  leaves the global object behind.\<close>

type_synonym 'a js = "Globals \<Rightarrow> (jsError + 'a) \<times> Globals"

text \<open>\<open>try { return body } catch (error) { console.error(label, error); return false }\<close>:
  the handler itself throws when \<open>console.error\<close> does.\<close>

definition catchLog :: "string \<Rightarrow> bool js \<Rightarrow> bool js" where
  "catchLog label body g =
     (case body g of
        (Inr b, g') \<Rightarrow> (Inr b, g')
      | (Inl thrown, g') \<Rightarrow>
          (case console_error g' label of
             None \<Rightarrow> (Inr False, g')
           | Some e \<Rightarrow> (Inl e, g')))"

text \<open>\<open>console.warn(label); return false\<close>\<close>

definition warnFalse :: "string \<Rightarrow> bool js" where
  "warnFalse label g =
     (case console_warn g label of
        None \<Rightarrow> (Inr False, g)
      | Some e \<Rightarrow> (Inl e, g))"

text \<open>\<open>!s\<close> for an optional string: undefined and the empty string are falsy.\<close>

definition falsy :: "string option \<Rightarrow> bool" where
  "falsy s = (case s of None \<Rightarrow> True | Some t \<Rightarrow> t = [])"

text \<open>\<open>xs.join(',')\<close>\<close>

fun joinComma :: "string list \<Rightarrow> string" where
  "joinComma [] = []"
| "joinComma [s] = s"
| "joinComma (s # t # ss) = s @ '','' @ joinComma (t # ss)"

section \<open>Data model\<close>

record User =
  user_id :: string
  email :: string
  roles :: "string list"
  permissions :: "string list"

text \<open>\<open>RuleEvaluationContext\<close>; a \<open>Date\<close> is its time value in milliseconds.\<close>

record Context =
  user :: User
  action :: string
  ctx_moduleName :: string
  resourceData :: "(string \<rightharpoonup> json) option"
  timestamp :: "int option"

text \<open>The object \<open>safeEvaluate\<close> evaluates an expression against.\<close>

record EvalContext =
  ec_user :: User
  ec_data :: "string \<rightharpoonup> json"
  ec_action :: string
  ec_timestamp :: int

record TimeRange =
  tr_start :: string
  tr_end :: string

record DateRange =
  dr_start :: json
  dr_end :: json

text \<open>\<open>RuleCondition\<close>: every field but \<open>type\<close> is optional, and a stored payload
  may lack \<open>type\<close> as well.\<close>

datatype RuleCondition = RuleCondition
  (c_type: "string option")
  (c_expression: "string option")
  (c_field: "string option")
  (c_operator: "string option")
  (c_value: "json option")
  (c_conditions: "RuleCondition list option")
  (c_logic: "string option")
  (c_timeRange: "TimeRange option")
  (c_dateRange: "DateRange option")
  (c_roles: "string list option")
  (c_permissions: "string list option")

text \<open>
  What the engine uses of the JavaScript runtime, as parameters:
  \<^item> \<open>runFunction\<close>: \<open>new Function('"use strict"; return (' + text + ')')\<close> called, and
    \<open>Boolean\<close> of its value. The text runs with the global object in reach and reads the
    wall clock with \<open>new Date()\<close>: the parameter takes the text, the clock reading and the
    global object, and gives the truthiness of the value or the error thrown, with the
    global object it leaves. A text that ends the process or does not return has no
    completion and is not described;
  \<^item> \<open>substituteReferences\<close>: the replacement of the \<open>data.x\<close> and \<open>user.x\<close> references of a
    sanitised expression by the text of their values;
  \<^item> \<open>toDouble\<close>: the double that a numeric literal denotes, and the rounding of an exact
    result of arithmetic;
  \<^item> \<open>parseNumber\<close>: \<open>Number(s)\<close> on a string;
  \<^item> \<open>numberToString\<close>: \<open>String(x)\<close> on a number;
  \<^item> \<open>toLowerCase\<close>;
  \<^item> \<open>getHours\<close>, \<open>getMinutes\<close>: the local clock of day of a time value;
  \<^item> \<open>newDate\<close>: the time value of \<open>new Date(v)\<close>, \<open>None\<close> for an invalid date.
\<close>

record jsEnv =
  runFunction :: "string \<Rightarrow> int \<Rightarrow> bool js"
  substituteReferences :: "string \<Rightarrow> EvalContext \<Rightarrow> string"
  toDouble :: "real \<Rightarrow> number"
  parseNumber :: "string \<Rightarrow> number"
  numberToString :: "number \<Rightarrow> string"
  toLowerCase :: "string \<Rightarrow> string"
  getHours :: "int \<Rightarrow> int"
  getMinutes :: "int \<Rightarrow> int"
  newDate :: "json \<Rightarrow> int option"

text \<open>\<open>a === b\<close>: numbers are compared as doubles, and \<open>NaN\<close> equals nothing; arrays,
  objects and functions are compared by reference, and a value of the rule payload is never
  the same object as a value of the request.\<close>

fun strictEquals :: "jsEnv \<Rightarrow> json \<Rightarrow> json \<Rightarrow> bool" where
  "strictEquals env JNull JNull = True"
| "strictEquals env (JBool a) (JBool b) = (a = b)"
| "strictEquals env (JNum a) (JNum b) = (toDouble env a = toDouble env b \<and> toDouble env a \<noteq> NaN)"
| "strictEquals env (JStr a) (JStr b) = (a = b)"
| "strictEquals env _ _ = False"

text \<open>The comparison of \<open>Array.prototype.includes\<close>, in which \<open>NaN\<close> equals itself.\<close>

fun sameValueZero :: "jsEnv \<Rightarrow> json \<Rightarrow> json \<Rightarrow> bool" where
  "sameValueZero env (JNum a) (JNum b) = (toDouble env a = toDouble env b)"
| "sameValueZero env a b = strictEquals env a b"

text \<open>\<open>String(v)\<close>; inside an array, \<open>null\<close> joins as the empty string.\<close>

fun toString :: "jsEnv \<Rightarrow> json \<Rightarrow> string" where
  "toString env JNull = ''null''"
| "toString env (JBool b) = (if b then ''true'' else ''false'')"
| "toString env (JNum x) = numberToString env (toDouble env x)"
| "toString env (JStr s) = s"
| "toString env (JArr vs) =
     joinComma (map (\<lambda>v. if v = JNull then [] else toString env v) vs)"
| "toString env (JObj kvs) = ''[object Object]''"
| "toString env (JFunction s) = s"

text \<open>\<open>Number(v)\<close>; arrays, objects and functions go through their string.\<close>

fun toNumber :: "jsEnv \<Rightarrow> json \<Rightarrow> number" where
  "toNumber env JNull = Finite 0"
| "toNumber env (JBool b) = Finite (if b then 1 else 0)"
| "toNumber env (JNum x) = toDouble env x"
| "toNumber env (JStr s) = parseNumber env s"
| "toNumber env v = parseNumber env (toString env v)"

text \<open>\<open>a < b\<close> and \<open>a <= b\<close> on numbers, false as soon as one is \<open>NaN\<close>; \<open>a > b\<close> is
  \<open>numLess b a\<close> and \<open>a >= b\<close> is \<open>numLessEq b a\<close>.\<close>

fun numLess :: "number \<Rightarrow> number \<Rightarrow> bool" where
  "numLess NaN b = False"
| "numLess a NaN = False"
| "numLess (Finite x) (Finite y) = (x < y)"
| "numLess a NegInfinity = False"
| "numLess PosInfinity b = False"
| "numLess a b = True"

fun numLessEq :: "number \<Rightarrow> number \<Rightarrow> bool" where
  "numLessEq NaN b = False"
| "numLessEq a NaN = False"
| "numLessEq (Finite x) (Finite y) = (x \<le> y)"
| "numLessEq NegInfinity b = True"
| "numLessEq a PosInfinity = True"
| "numLessEq a b = False"

text \<open>\<open>a + b\<close> and \<open>a * b\<close> on numbers: the exact result rounded to a double.\<close>

fun numAdd :: "jsEnv \<Rightarrow> number \<Rightarrow> number \<Rightarrow> number" where
  "numAdd env (Finite x) (Finite y) = toDouble env (x + y)"
| "numAdd env NaN b = NaN"
| "numAdd env a NaN = NaN"
| "numAdd env PosInfinity NegInfinity = NaN"
| "numAdd env NegInfinity PosInfinity = NaN"
| "numAdd env PosInfinity b = PosInfinity"
| "numAdd env NegInfinity b = NegInfinity"
| "numAdd env a b = b"

definition signedInfinity :: "bool \<Rightarrow> number" where
  "signedInfinity positive = (if positive then PosInfinity else NegInfinity)"

fun numTimes :: "jsEnv \<Rightarrow> number \<Rightarrow> number \<Rightarrow> number" where
  "numTimes env (Finite x) (Finite y) = toDouble env (x * y)"
| "numTimes env NaN b = NaN"
| "numTimes env a NaN = NaN"
| "numTimes env (Finite x) PosInfinity = (if x = 0 then NaN else signedInfinity (x > 0))"
| "numTimes env (Finite x) NegInfinity = (if x = 0 then NaN else signedInfinity (x < 0))"
| "numTimes env PosInfinity (Finite y) = (if y = 0 then NaN else signedInfinity (y > 0))"
| "numTimes env NegInfinity (Finite y) = (if y = 0 then NaN else signedInfinity (y < 0))"
| "numTimes env PosInfinity b = b"
| "numTimes env NegInfinity PosInfinity = NegInfinity"
| "numTimes env NegInfinity NegInfinity = PosInfinity"

text \<open>\<open>Array.isArray(v) && v.includes(x)\<close>\<close>

definition arrayIncludes :: "jsEnv \<Rightarrow> json \<Rightarrow> json \<Rightarrow> bool option" where
  "arrayIncludes env v x =
     (case v of JArr vs \<Rightarrow> Some (list_ex (sameValueZero env x) vs) | _ \<Rightarrow> None)"

text \<open>\<open>haystack.includes(needle)\<close> on strings\<close>

definition stringIncludes :: "string \<Rightarrow> string \<Rightarrow> bool" where
  "stringIncludes haystack needle =
     list_ex (\<lambda>i. take (length needle) (drop i haystack) = needle) [0 ..< Suc (length haystack)]"

text \<open>\<open>s.split(':')\<close>\<close>

fun splitColon :: "string \<Rightarrow> string list" where
  "splitColon [] = [Nil]"
| "splitColon (c # cs) =
     (if c = CHR '':'' then [] # splitColon cs
      else (case splitColon cs of [] \<Rightarrow> [c # Nil] | p # ps \<Rightarrow> (c # p) # ps))"

text \<open>An element of a destructured array of numbers; a missing element is \<open>undefined\<close>,
  which \<open>isNaN\<close> and arithmetic treat as \<open>NaN\<close>.\<close>

definition numberAt :: "number list \<Rightarrow> nat \<Rightarrow> number" where
  "numberAt xs i = (if i < length xs then xs ! i else NaN)"

text \<open>\<open>Promise.all\<close>: the values in order, or a rejection when one of the promises
  rejects.\<close>

fun promiseAll :: "(jsError + 'a) list \<Rightarrow> jsError + 'a list" where
  "promiseAll [] = Inr []"
| "promiseAll (Inl e # ps) = Inl e"
| "promiseAll (Inr v # ps) = (case promiseAll ps of Inl e \<Rightarrow> Inl e | Inr vs \<Rightarrow> Inr (v # vs))"

text \<open>
  \<open>object[key]\<close> on a plain object: an own property, or else a property inherited from
  \<open>Object.prototype\<close>, so that a key such as \<open>constructor\<close> is never \<open>undefined\<close>.
\<close>

definition objectPrototype :: "string \<rightharpoonup> json" where
  "objectPrototype =
     [''constructor'' \<mapsto> JFunction ''function Object() { [native code] }'',
      ''toString'' \<mapsto> JFunction ''function toString() { [native code] }'',
      ''toLocaleString'' \<mapsto> JFunction ''function toLocaleString() { [native code] }'',
      ''valueOf'' \<mapsto> JFunction ''function valueOf() { [native code] }'',
      ''hasOwnProperty'' \<mapsto> JFunction ''function hasOwnProperty() { [native code] }'',
      ''isPrototypeOf'' \<mapsto> JFunction ''function isPrototypeOf() { [native code] }'',
      ''propertyIsEnumerable'' \<mapsto>
         JFunction ''function propertyIsEnumerable() { [native code] }'',
      ''__defineGetter__'' \<mapsto> JFunction ''function __defineGetter__() { [native code] }'',
      ''__defineSetter__'' \<mapsto> JFunction ''function __defineSetter__() { [native code] }'',
      ''__lookupGetter__'' \<mapsto> JFunction ''function __lookupGetter__() { [native code] }'',
      ''__lookupSetter__'' \<mapsto> JFunction ''function __lookupSetter__() { [native code] }'',
      ''__proto__'' \<mapsto> JObj []]"

definition getProperty :: "(string \<rightharpoonup> json) \<Rightarrow> string \<Rightarrow> json option" where
  "getProperty object key =
     (case object key of Some v \<Rightarrow> Some v | None \<Rightarrow> objectPrototype key)"

section \<open>Condition Evaluator\<close>

text \<open>
  Every function takes the reading of the wall clock (\<open>new Date()\<close>) as \<open>clock\<close>; the
  readings taken during one call are taken to be equal.
\<close>

text \<open>\<open>context.timestamp || new Date()\<close>\<close>

definition evaluationTime :: "int \<Rightarrow> Context \<Rightarrow> int" where
  "evaluationTime clock ctx = (case timestamp ctx of None \<Rightarrow> clock | Some t \<Rightarrow> t)"

text \<open>
  The sanitiser of \<open>safeEvaluate\<close>: the characters that the regular expression
  \<open>[^a-zA-Z0-9\s\.\(\)\[\]<>=!&|+\-*/%"'_]\<close> leaves in place, and \<open>trim\<close>.
\<close>

definition isSpace :: "char \<Rightarrow> bool" where
  "isSpace c = (c \<in> set [CHR 0x09, CHR 0x0A, CHR 0x0B, CHR 0x0C, CHR 0x0D, CHR 0x20, CHR 0xA0])"

definition allowedChar :: "char \<Rightarrow> bool" where
  "allowedChar c =
     (c \<in> set ''abcdefghijklmnopqrstuvwxyzABCDEFGHIJKLMNOPQRSTUVWXYZ0123456789''
      \<or> isSpace c
      \<or> c \<in> set (''.()[]<>=!&|+-*/%_'' @ [CHR 0x22, CHR 0x27]))"

definition trim :: "string \<Rightarrow> string" where
  "trim s = rev (dropWhile isSpace (rev (dropWhile isSpace s)))"

definition sanitize :: "string \<Rightarrow> string" where
  "sanitize expression = trim (filter allowedChar expression)"

text \<open>\<open>safeEvaluate\<close>: what is left of the expression after the sanitiser is run as the
  body of a function.\<close>

definition safeEvaluate :: "jsEnv \<Rightarrow> int \<Rightarrow> string \<Rightarrow> EvalContext \<Rightarrow> bool js" where
  "safeEvaluate env clock expression evalContext =
     catchLog ''Safe evaluation error:''
       (\<lambda>g. let sanitizedExpression = sanitize expression in
            if sanitizedExpression = [] then (Inr False, g)
            else runFunction env (substituteReferences env sanitizedExpression evalContext)
                   clock g)"

text \<open>The \<open>evalContext\<close> object that \<open>evaluateExpression\<close> builds.\<close>

definition evalContext :: "int \<Rightarrow> Context \<Rightarrow> EvalContext" where
  "evalContext clock ctx =
     \<lparr> ec_user = user ctx,
       ec_data = (case resourceData ctx of None \<Rightarrow> Map.empty | Some d \<Rightarrow> d),
       ec_action = action ctx,
       ec_timestamp = evaluationTime clock ctx \<rparr>"

definition evaluateExpression :: "jsEnv \<Rightarrow> int \<Rightarrow> RuleCondition \<Rightarrow> Context \<Rightarrow> bool js" where
  "evaluateExpression env clock condition ctx =
     (if falsy (c_expression condition) then Pair (Inr False)
      else catchLog ''Expression evaluation error:''
             (safeEvaluate env clock (the (c_expression condition)) (evalContext clock ctx)))"

definition thresholdSwitch :: "jsEnv \<Rightarrow> string \<Rightarrow> json \<Rightarrow> json \<Rightarrow> bool" where
  "thresholdSwitch env operator fieldValue v =
     (if operator = ''eq'' then strictEquals env fieldValue v
      else if operator = ''ne'' then \<not> strictEquals env fieldValue v
      else if operator = ''gt'' then numLess (toNumber env v) (toNumber env fieldValue)
      else if operator = ''gte'' then numLessEq (toNumber env v) (toNumber env fieldValue)
      else if operator = ''lt'' then numLess (toNumber env fieldValue) (toNumber env v)
      else if operator = ''lte'' then numLessEq (toNumber env fieldValue) (toNumber env v)
      else if operator = ''in'' then
        (case arrayIncludes env v fieldValue of None \<Rightarrow> False | Some b \<Rightarrow> b)
      else if operator = ''nin'' then
        (case arrayIncludes env v fieldValue of None \<Rightarrow> False | Some b \<Rightarrow> \<not> b)
      else if operator = ''contains'' then
        stringIncludes (toLowerCase env (toString env fieldValue)) (toLowerCase env (toString env v))
      else if operator = ''between'' then
        (case v of
           JArr [lo, hi] \<Rightarrow>
             numLessEq (toNumber env lo) (toNumber env fieldValue)
             \<and> numLessEq (toNumber env fieldValue) (toNumber env hi)
         | _ \<Rightarrow> False)
      else False)"

definition evaluateThreshold :: "jsEnv \<Rightarrow> RuleCondition \<Rightarrow> Context \<Rightarrow> bool js" where
  "evaluateThreshold env condition ctx =
     (if falsy (c_field condition) \<or> falsy (c_operator condition) \<or> c_value condition = None
      then Pair (Inr False)
      else
        (case (case resourceData ctx of
                 None \<Rightarrow> None
               | Some d \<Rightarrow> getProperty d (the (c_field condition))) of
           None \<Rightarrow> Pair (Inr False)
         | Some JNull \<Rightarrow> Pair (Inr False)
         | Some fieldValue \<Rightarrow>
             catchLog ''Threshold evaluation error:''
               (Pair (Inr (thresholdSwitch env (the (c_operator condition)) fieldValue
                             (the (c_value condition)))))))"

definition clockRange :: "jsEnv \<Rightarrow> int \<Rightarrow> TimeRange \<Rightarrow> bool" where
  "clockRange env now timeRange =
     (let currentTime = Finite (real_of_int (getHours env now * 60 + getMinutes env now));
          starts = map (parseNumber env) (splitColon (tr_start timeRange));
          ends = map (parseNumber env) (splitColon (tr_end timeRange));
          startHour = numberAt starts 0; startMin = numberAt starts 1;
          endHour = numberAt ends 0; endMin = numberAt ends 1
      in if startHour = NaN \<or> startMin = NaN \<or> endHour = NaN \<or> endMin = NaN then False
         else
           (let startTime = numAdd env (numTimes env startHour (Finite 60)) startMin;
                endTime = numAdd env (numTimes env endHour (Finite 60)) endMin
            in numLessEq startTime currentTime \<and> numLessEq currentTime endTime))"

definition evaluateTimeBased :: "jsEnv \<Rightarrow> int \<Rightarrow> RuleCondition \<Rightarrow> Context \<Rightarrow> bool js" where
  "evaluateTimeBased env clock condition ctx =
     (let now = evaluationTime clock ctx
      in catchLog ''Time-based evaluation error:''
           (Pair (case c_timeRange condition of
                    Some timeRange \<Rightarrow> Inr (clockRange env now timeRange)
                  | None \<Rightarrow>
                      (case c_dateRange condition of
                         Some dateRange \<Rightarrow>
                           (case (newDate env (dr_start dateRange),
                                  newDate env (dr_end dateRange)) of
                              (Some startDate, Some endDate) \<Rightarrow>
                                Inr (now \<ge> startDate \<and> now \<le> endDate)
                            | _ \<Rightarrow> Inr False)
                       | None \<Rightarrow> Inr False))))"

definition evaluateRoleBased :: "RuleCondition \<Rightarrow> Context \<Rightarrow> jsError + bool" where
  "evaluateRoleBased condition ctx =
     (case c_roles condition of
        None \<Rightarrow> Inr False
      | Some rs \<Rightarrow>
          if rs = [] then Inr False
          else Inr (list_ex (\<lambda>role. role \<in> set (roles (user ctx))) rs))"

definition evaluatePermissionBased :: "RuleCondition \<Rightarrow> Context \<Rightarrow> jsError + bool" where
  "evaluatePermissionBased condition ctx =
     (case c_permissions condition of
        None \<Rightarrow> Inr False
      | Some ps \<Rightarrow>
          if ps = [] then Inr False
          else Inr (list_ex (\<lambda>permission. permission \<in> set (permissions (user ctx))) ps))"

text \<open>
  A promise: the completion it settles with, given the global object at the time it
  settles.
\<close>

type_synonym 'a promise = "Globals \<Rightarrow> jsError + 'a"

text \<open>
  \<open>evaluateCondition\<close> and \<open>evaluateComposite\<close> are asynchronous: a call runs to its first
  \<open>await\<close> and returns a promise. \<open>startCondition\<close> is the call of \<open>evaluateCondition\<close>
  and \<open>evaluateComposite\<close> that of \<open>evaluateComposite\<close>: each gives the promise that the
  call returns and the global object that its synchronous part leaves.

  \<open>evaluateCondition\<close> has no \<open>await\<close>: what the synchronous evaluators throw is caught by
  its \<open>try\<close> and its promise is settled when it returns, but the promise of
  \<open>evaluateComposite\<close> is returned as it is, so that its rejection passes through.
  \<open>evaluateComposite\<close> starts every child in order and awaits the joined promises; the
  rest of its body, with its \<open>catch\<close>, runs when they have settled.
\<close>

function (sequential) startCondition ::
  "jsEnv \<Rightarrow> int \<Rightarrow> RuleCondition option \<Rightarrow> Context \<Rightarrow> Globals \<Rightarrow> bool promise \<times> Globals"
and evaluateComposite ::
  "jsEnv \<Rightarrow> int \<Rightarrow> RuleCondition \<Rightarrow> Context \<Rightarrow> Globals \<Rightarrow> bool promise \<times> Globals" where
  "startCondition env clock None ctx g =
     (case catchLog ''Condition evaluation error:''
             (warnFalse ''Invalid condition: missing type'') g of
        (r, g') \<Rightarrow> (\<lambda>settled. r, g'))"
| "startCondition env clock (Some condition) ctx g =
     (if c_type condition = Some ''composite'' then evaluateComposite env clock condition ctx g
      else
        (case catchLog ''Condition evaluation error:''
                (if falsy (c_type condition) then warnFalse ''Invalid condition: missing type''
                 else if c_type condition = Some ''expression'' then
                   evaluateExpression env clock condition ctx
                 else if c_type condition = Some ''threshold'' then
                   evaluateThreshold env condition ctx
                 else if c_type condition = Some ''time_based'' then
                   evaluateTimeBased env clock condition ctx
                 else if c_type condition = Some ''role_based'' then
                   Pair (evaluateRoleBased condition ctx)
                 else if c_type condition = Some ''permission_based'' then
                   Pair (evaluatePermissionBased condition ctx)
                 else warnFalse (''Unknown condition type: '' @ the (c_type condition))) g of
           (r, g') \<Rightarrow> (\<lambda>settled. r, g')))"
| "evaluateComposite env clock condition ctx g =
     (case c_conditions condition of
        None \<Rightarrow> (\<lambda>settled. Inr False, g)
      | Some cs \<Rightarrow>
          if cs = [] then (\<lambda>settled. Inr False, g)
          else
            (case fold (\<lambda>c (started, g1).
                          case startCondition env clock (Some c) ctx g1 of
                            (p, g2) \<Rightarrow> (started @ [p], g2))
                    cs ([], g) of
               (promises, g') \<Rightarrow>
                 (\<lambda>settled.
                    fst (catchLog ''Composite condition evaluation error:''
                           (Pair (case promiseAll (map (\<lambda>p. p settled) promises) of
                                    Inl e \<Rightarrow> Inl e
                                  | Inr results \<Rightarrow>
                                      if c_logic condition = Some ''OR''
                                      then Inr (list_ex (\<lambda>r. r) results)
                                      else Inr (list_all (\<lambda>r. r) results)))
                           settled),
                  g')))"
  by pat_completeness auto
termination
  apply (relation "measure (\<lambda>x. case x of
            Inl (env, clock, copt, ctx, g) \<Rightarrow> (case copt of None \<Rightarrow> 0 | Some c \<Rightarrow> 2 * size c + 1)
          | Inr (env, clock, c, ctx, g) \<Rightarrow> 2 * size c)")
    apply simp
   apply simp
  subgoal for env clock condition ctx g cs c
    by (cases condition) (auto dest: size_list_estimation'[where f=size and y="size c"])
  done

text \<open>\<open>await this.evaluateCondition(condition, context)\<close>: the synchronous part, then the
  completion of the promise.\<close>

definition awaitCondition :: "jsEnv \<Rightarrow> int \<Rightarrow> RuleCondition option \<Rightarrow> Context \<Rightarrow> bool js" where
  "awaitCondition env clock condition ctx g =
     (case startCondition env clock condition ctx g of (p, g') \<Rightarrow> (p g', g'))"

text \<open>
  \<open>evaluateCondition\<close> in a runtime that nothing has touched: what the awaited call
  returns or throws.
\<close>

definition evaluateCondition ::
  "jsEnv \<Rightarrow> int \<Rightarrow> RuleCondition option \<Rightarrow> Context \<Rightarrow> jsError + bool" where
  "evaluateCondition env clock condition ctx = fst (awaitCondition env clock condition ctx initialGlobals)"

section \<open>Rules, exceptions and the Rule Store\<close>

record RuleAction =
  a_type :: string
  a_message :: "string option"
  a_modifications :: "(string \<rightharpoonup> json) option"
  a_approvers :: "string list option"
  a_notifyUsers :: "string list option"

text \<open>A row of the \<open>Rule\<close> table (\<open>updatedAt\<close>, which nothing reads, is left out).\<close>

record Rule =
  rule_id :: string
  name :: string
  moduleName :: string
  description :: "string option"
  category :: string
  conditionType :: string
  conditionPayload :: "RuleCondition option"
  actionType :: string
  actionPayload :: "RuleAction option"
  severityLevel :: string
  priority :: int
  isActive :: bool
  effectiveFrom :: int
  effectiveTo :: "int option"
  version :: int
  parentRuleId :: "string option"
  createdBy :: string
  createdAt :: int

record RuleException =
  ex_ruleId :: string
  ex_userId :: string
  ex_isActive :: bool
  ex_effectiveFrom :: int
  ex_effectiveTo :: "int option"

text \<open>
  The Rule Store: the rows of the two tables in the order the database holds them, and
  \<open>failure\<close>, which is \<open>Some m\<close> when the database cannot be reached: every query
  then rejects with an error of message \<open>m\<close>.
\<close>

record Store =
  ruleTable :: "Rule list"
  exceptionTable :: "RuleException list"
  failure :: "string option"

record CacheEntry =
  ce_rules :: "Rule list"
  lastUpdated :: int

type_synonym RulesCache = "string \<rightharpoonup> CacheEntry"

definition CACHE_TTL :: int where
  "CACHE_TTL = 5 * 60 * 1000"

text \<open>
  \<open>prisma.rule.findMany\<close> with the filter (\<open>isCandidate\<close>) and the \<open>orderBy\<close> of
  \<open>getCachedRules\<close>: ascending \<open>priority\<close>, then ascending \<open>createdAt\<close>. \<open>ORDER BY\<close> does not fix the
  order of rows that agree on both, which stay in the order the table holds them.
\<close>

definition isCandidate :: "int \<Rightarrow> string \<Rightarrow> Rule \<Rightarrow> bool" where
  "isCandidate clock m r =
     (moduleName r = m \<and> isActive r \<and> effectiveFrom r \<le> clock
      \<and> (case effectiveTo r of None \<Rightarrow> True | Some t \<Rightarrow> t \<ge> clock))"

definition findManyActive :: "Store \<Rightarrow> int \<Rightarrow> string \<Rightarrow> jsError + Rule list" where
  "findManyActive store clock m =
     (case failure store of
        Some msg \<Rightarrow> Inl (JsError msg)
      | None \<Rightarrow>
          Inr (sort_key (\<lambda>r. (priority r, createdAt r))
                 (filter (isCandidate clock m) (ruleTable store))))"

definition getCachedRules ::
  "Store \<Rightarrow> RulesCache \<Rightarrow> int \<Rightarrow> string \<Rightarrow> (jsError + Rule list) \<times> RulesCache" where
  "getCachedRules store rulesCache clock m =
     (case (case rulesCache m of
              None \<Rightarrow> None
            | Some cached \<Rightarrow> if clock - lastUpdated cached < CACHE_TTL then Some cached else None) of
        Some cached \<Rightarrow> (Inr (ce_rules cached), rulesCache)
      | None \<Rightarrow>
          (case findManyActive store clock m of
             Inl e \<Rightarrow> (Inl e, rulesCache)
           | Inr rules \<Rightarrow>
               (Inr rules, rulesCache(m \<mapsto> \<lparr> ce_rules = rules, lastUpdated = clock \<rparr>))))"

definition clearCache :: "string option \<Rightarrow> RulesCache \<Rightarrow> RulesCache" where
  "clearCache m rulesCache =
     (case m of
        None \<Rightarrow> Map.empty
      | Some k \<Rightarrow> if k = [] then Map.empty else rulesCache(k := None))"

text \<open>\<open>checkRuleException\<close>: a failing query is caught and answers \<open>false\<close>.\<close>

definition checkRuleException :: "Store \<Rightarrow> int \<Rightarrow> string \<Rightarrow> string list \<Rightarrow> bool" where
  "checkRuleException store clock userId ruleIds =
     (if ruleIds = [] then False
      else
        (case failure store of
           Some msg \<Rightarrow> False
         | None \<Rightarrow>
             list_ex (\<lambda>e. ex_userId e = userId \<and> ex_ruleId e \<in> set ruleIds \<and> ex_isActive e
                          \<and> ex_effectiveFrom e \<le> clock
                          \<and> (case ex_effectiveTo e of None \<Rightarrow> False | Some t \<Rightarrow> t \<ge> clock))
               (exceptionTable store)))"

section \<open>Decision Resolver\<close>

datatype Decision = ALLOWED | BLOCKED | MODIFIED | WARNING | APPROVAL_REQUIRED | ERROR

record TriggeredRule =
  t_ruleId :: string
  t_ruleName :: string
  t_severity :: string
  t_action :: string

text \<open>
  \<open>RuleEvaluationResult\<close>. \<open>executionTimeMs\<close>, the difference of two clock readings, is
  left out. A field that \<open>createResult\<close> receives no argument for is \<open>None\<close>.
\<close>

record Result =
  decision :: Decision
  message :: string
  triggeredRules :: "TriggeredRule list"
  modifications :: "(string \<rightharpoonup> json) option"
  requiresApproval :: "bool option"
  approvers :: "string list option"
  error :: "string option"

definition createResult ::
  "Decision \<Rightarrow> TriggeredRule list \<Rightarrow> string \<Rightarrow> (string \<rightharpoonup> json) option \<Rightarrow> bool option
     \<Rightarrow> string list option \<Rightarrow> Result" where
  "createResult d triggered msg mods needsApproval approverList =
     \<lparr> decision = d, message = msg, triggeredRules = triggered, modifications = mods,
       requiresApproval = needsApproval, approvers = approverList, error = None \<rparr>"

text \<open>What one evaluation does that can be observed besides its result: the call of the
  Exception Checker and the calls of the Condition Evaluator, in order. The audit and
  rule-log writes are scheduled with \<open>setImmediate\<close>, cannot fail the caller and
  are not part of the model.\<close>

datatype Event =
    ExceptionChecked string "string list"
  | ConditionEvaluated string

text \<open>The local variables of \<open>evaluateRules\<close> that the loop updates.\<close>

record LoopState =
  st_triggeredRules :: "TriggeredRule list"
  finalDecision :: Decision
  finalMessage :: string
  st_modifications :: "string \<rightharpoonup> json"
  st_requiresApproval :: bool
  st_approvers :: "string list"
  events :: "Event list"

definition initialState :: "Event list \<Rightarrow> LoopState" where
  "initialState evs =
     \<lparr> st_triggeredRules = [], finalDecision = ALLOWED, finalMessage = [],
       st_modifications = Map.empty, st_requiresApproval = False, st_approvers = [],
       events = evs \<rparr>"

datatype Outcome = Continue LoopState | Return Result "Event list"

text \<open>\<open>[...new Set(xs)]\<close>: the first occurrence of each element, in order.\<close>

fun insertAll :: "'a list \<Rightarrow> 'a list \<Rightarrow> 'a list" where
  "insertAll seen [] = seen"
| "insertAll seen (x # xs) = insertAll (if x \<in> set seen then seen else seen @ [x]) xs"

definition newSet :: "'a list \<Rightarrow> 'a list" where
  "newSet xs = insertAll [] xs"

text \<open>\<open>actionPayload?.message || fallback\<close>\<close>

definition messageOr :: "RuleAction option \<Rightarrow> string \<Rightarrow> string" where
  "messageOr payload fallback =
     (case payload of
        None \<Rightarrow> fallback
      | Some p \<Rightarrow> if falsy (a_message p) then fallback else the (a_message p))"

definition payloadApprovers :: "RuleAction option \<Rightarrow> string list option" where
  "payloadApprovers payload = (case payload of None \<Rightarrow> None | Some p \<Rightarrow> a_approvers p)"

definition payloadModifications :: "RuleAction option \<Rightarrow> (string \<rightharpoonup> json) option" where
  "payloadModifications payload = (case payload of None \<Rightarrow> None | Some p \<Rightarrow> a_modifications p)"

text \<open>The \<open>switch (rule.actionType)\<close> of a triggered rule.\<close>

definition applyAction :: "Rule \<Rightarrow> LoopState \<Rightarrow> Outcome" where
  "applyAction rule st =
     (let actionPayload = actionPayload rule in
      if actionType rule = ''BLOCK'' then
        Return (createResult BLOCKED (st_triggeredRules st)
                  (messageOr actionPayload (''Action blocked by rule: '' @ name rule))
                  None None None)
               (events st)
      else if actionType rule = ''REQUIRE_APPROVAL'' then
        (if finalDecision st \<noteq> BLOCKED then
           Continue (st\<lparr> finalDecision := APPROVAL_REQUIRED,
                        st_requiresApproval := True,
                        st_approvers :=
                          (case payloadApprovers actionPayload of
                             None \<Rightarrow> st_approvers st
                           | Some as \<Rightarrow> newSet (st_approvers st @ as)),
                        finalMessage :=
                          messageOr actionPayload (''Approval required by rule: '' @ name rule) \<rparr>)
         else Continue st)
      else if actionType rule = ''MODIFY'' then
        Continue (st\<lparr> finalDecision :=
                       (if finalDecision st \<noteq> BLOCKED \<and> finalDecision st \<noteq> APPROVAL_REQUIRED
                        then MODIFIED else finalDecision st),
                     st_modifications :=
                       (case payloadModifications actionPayload of
                          None \<Rightarrow> st_modifications st
                        | Some m \<Rightarrow> st_modifications st ++ m),
                     finalMessage :=
                       (if finalMessage st = [] then
                          messageOr actionPayload (''Action modified by rule: '' @ name rule)
                        else finalMessage st) \<rparr>)
      else if actionType rule = ''WARN'' then
        (if finalDecision st = ALLOWED then
           Continue (st\<lparr> finalDecision := WARNING,
                        finalMessage := messageOr actionPayload (''Warning from rule: '' @ name rule) \<rparr>)
         else Continue st)
      else if actionType rule = ''ALLOW'' then Continue st
      else Continue st)"

text \<open>\<open>rule.effectiveFrom > now || (rule.effectiveTo && rule.effectiveTo < now)\<close>\<close>

definition notEffective :: "int \<Rightarrow> Rule \<Rightarrow> bool" where
  "notEffective now rule =
     (effectiveFrom rule > now \<or> (case effectiveTo rule of None \<Rightarrow> False | Some t \<Rightarrow> t < now))"

text \<open>
  The body of the loop for one rule. The Condition Evaluator is the parameter \<open>ev\<close>,
  so that the \<open>catch (ruleError)\<close> of the body has a meaning of its own: an evaluator
  that throws on this rule leaves every local variable as it was. The report of the \<open>catch\<close>
  on the console, and that of an unknown action type, return here; \<open>processRuleIn\<close> below
  is the body with the console.
\<close>

definition processRule ::
  "(RuleCondition option \<Rightarrow> Context \<Rightarrow> jsError + bool) \<Rightarrow> int \<Rightarrow> Context \<Rightarrow> Rule \<Rightarrow> LoopState
     \<Rightarrow> Outcome" where
  "processRule ev clock ctx rule st =
     (let now = evaluationTime clock ctx in
      if notEffective now rule then Continue st
      else
        (let st1 = st\<lparr> events := events st @ [ConditionEvaluated (rule_id rule)] \<rparr> in
         case ev (conditionPayload rule) ctx of
           Inl ruleError \<Rightarrow> Continue st1
         | Inr conditionMet \<Rightarrow>
             if conditionMet then
               applyAction rule
                 (st1\<lparr> st_triggeredRules := st_triggeredRules st1 @
                         [\<lparr> t_ruleId = rule_id rule, t_ruleName = name rule,
                            t_severity = severityLevel rule, t_action = actionType rule \<rparr>] \<rparr>)
             else Continue st1))"

text \<open>\<open>for (const rule of rules)\<close> and the result built after it.\<close>

fun runRules ::
  "(RuleCondition option \<Rightarrow> Context \<Rightarrow> jsError + bool) \<Rightarrow> int \<Rightarrow> Context \<Rightarrow> Rule list \<Rightarrow> LoopState
     \<Rightarrow> Result \<times> Event list" where
  "runRules ev clock ctx [] st =
     (createResult (finalDecision st) (st_triggeredRules st) (finalMessage st)
        (Some (st_modifications st)) (Some (st_requiresApproval st)) (Some (st_approvers st)),
      events st)"
| "runRules ev clock ctx (rule # rules) st =
     (case processRule ev clock ctx rule st of
        Return result evs \<Rightarrow> (result, evs)
      | Continue st' \<Rightarrow> runRules ev clock ctx rules st')"

definition errorResult :: "string \<Rightarrow> Result" where
  "errorResult msg =
     \<lparr> decision = ERROR, message = ''Rule evaluation failed'', triggeredRules = [],
       modifications = None, requiresApproval = None, approvers = None, error = Some msg \<rparr>"

text \<open>
  \<open>evaluateRules\<close> over any Condition Evaluator: the result, the cache after the call
  and the events of the call.
\<close>

definition evaluateRulesWith ::
  "(RuleCondition option \<Rightarrow> Context \<Rightarrow> jsError + bool) \<Rightarrow> Store \<Rightarrow> RulesCache \<Rightarrow> int \<Rightarrow> Context
     \<Rightarrow> Result \<times> RulesCache \<times> Event list" where
  "evaluateRulesWith ev store rulesCache clock ctx =
     (if user_id (user ctx) = [] \<or> ctx_moduleName ctx = [] \<or> action ctx = [] then
        (errorResult ''Invalid evaluation context: missing required fields'', rulesCache, [])
      else
        (case getCachedRules store rulesCache clock (ctx_moduleName ctx) of
           (Inl e, cache') \<Rightarrow> (errorResult (errorMessage e), cache', [])
         | (Inr rules, cache') \<Rightarrow>
             if rules = [] then
               (createResult ALLOWED [] ''No active rules found'' None None None, cache', [])
             else
               (let ruleIds = map rule_id rules;
                    checked = [ExceptionChecked (user_id (user ctx)) ruleIds]
                in if checkRuleException store clock (user_id (user ctx)) ruleIds then
                     (createResult ALLOWED [] ''User has rule exception'' None None None, cache',
                      checked)
                   else
                     (case runRules ev clock ctx rules (initialState checked) of
                        (result, evs) \<Rightarrow> (result, cache', evs)))))"

text \<open>\<open>evaluateRules\<close> when every condition is evaluated in a runtime that nothing has
  touched.\<close>

definition evaluateRules ::
  "jsEnv \<Rightarrow> Store \<Rightarrow> RulesCache \<Rightarrow> int \<Rightarrow> Context \<Rightarrow> Result \<times> RulesCache \<times> Event list" where
  "evaluateRules env store rulesCache clock ctx =
     evaluateRulesWith (evaluateCondition env clock) store rulesCache clock ctx"

section \<open>The evaluation against the global object\<close>

text \<open>
  \<open>processRule\<close>, \<open>runRules\<close> and \<open>evaluateRules\<close> above are the evaluation in which
  every condition is evaluated in a runtime that nothing has touched and the reports of the
  loop on the console return. What follows is the evaluation as it runs: the global object
  is passed from each step to the next, and a \<open>catch\<close> that reports on the console throws
  when the console does.
\<close>

text \<open>\<open>checkRuleException\<close>: a failing query is caught, reported, and answers \<open>false\<close>.\<close>

definition checkRuleExceptionIn :: "Store \<Rightarrow> int \<Rightarrow> string \<Rightarrow> string list \<Rightarrow> bool js" where
  "checkRuleExceptionIn store clock userId ruleIds =
     (if ruleIds = [] then Pair (Inr False)
      else catchLog ''Rule exception check error:''
             (Pair (case failure store of
                      Some msg \<Rightarrow> Inl (JsError msg)
                    | None \<Rightarrow> Inr (checkRuleException store clock userId ruleIds))))"

text \<open>
  What the body of the loop does for one rule: it goes on to the next rule with the local
  variables updated, it returns a result, or an error leaves the loop for the \<open>catch\<close> of
  \<open>evaluateRules\<close>.
\<close>

datatype Step = Next LoopState | Done Result "Event list" | Raised jsError "Event list"

text \<open>The \<open>catch (ruleError)\<close> of the body: the error is reported on the console and the
  loop continues, with the local variables as they are at the throw.\<close>

definition ruleCatch :: "Rule \<Rightarrow> LoopState \<Rightarrow> Globals \<Rightarrow> Step" where
  "ruleCatch rule st g =
     (case console_error g (''Error evaluating rule '' @ rule_id rule @ '':'') of
        None \<Rightarrow> Next st
      | Some e \<Rightarrow> Raised e (events st))"

text \<open>The \<open>switch (rule.actionType)\<close> of a triggered rule; an unknown action type is reported
  with \<open>console.warn\<close>.\<close>

definition applyActionIn :: "Rule \<Rightarrow> LoopState \<Rightarrow> Globals \<Rightarrow> Step" where
  "applyActionIn rule st g =
     (if actionType rule \<in> set [''BLOCK'', ''REQUIRE_APPROVAL'', ''MODIFY'', ''WARN'', ''ALLOW''] then
        (case applyAction rule st of
           Continue st' \<Rightarrow> Next st'
         | Return result evs \<Rightarrow> Done result evs)
      else
        (case console_warn g (''Unknown action type: '' @ actionType rule @ '' for rule ''
                                @ rule_id rule) of
           None \<Rightarrow> Next st
         | Some e \<Rightarrow> ruleCatch rule st g))"

definition processRuleIn ::
  "(RuleCondition option \<Rightarrow> Context \<Rightarrow> bool js) \<Rightarrow> int \<Rightarrow> Context \<Rightarrow> Rule \<Rightarrow> LoopState
     \<Rightarrow> Globals \<Rightarrow> Step \<times> Globals" where
  "processRuleIn ev clock ctx rule st g =
     (let now = evaluationTime clock ctx in
      if notEffective now rule then (Next st, g)
      else
        (let st1 = st\<lparr> events := events st @ [ConditionEvaluated (rule_id rule)] \<rparr> in
         case ev (conditionPayload rule) ctx g of
           (Inl ruleError, g') \<Rightarrow> (ruleCatch rule st1 g', g')
         | (Inr conditionMet, g') \<Rightarrow>
             if conditionMet then
               (applyActionIn rule
                  (st1\<lparr> st_triggeredRules := st_triggeredRules st1 @
                          [\<lparr> t_ruleId = rule_id rule, t_ruleName = name rule,
                             t_severity = severityLevel rule, t_action = actionType rule \<rparr>] \<rparr>)
                  g',
                g')
             else (Next st1, g')))"

text \<open>\<open>for (const rule of rules)\<close>, the result built after it, and the \<open>catch\<close> of
  \<open>evaluateRules\<close> for an error that leaves the loop.\<close>

fun runRulesIn ::
  "(RuleCondition option \<Rightarrow> Context \<Rightarrow> bool js) \<Rightarrow> int \<Rightarrow> Context \<Rightarrow> Rule list \<Rightarrow> LoopState
     \<Rightarrow> Globals \<Rightarrow> (Result \<times> Event list) \<times> Globals" where
  "runRulesIn ev clock ctx [] st g =
     ((createResult (finalDecision st) (st_triggeredRules st) (finalMessage st)
         (Some (st_modifications st)) (Some (st_requiresApproval st)) (Some (st_approvers st)),
       events st), g)"
| "runRulesIn ev clock ctx (rule # rules) st g =
     (case processRuleIn ev clock ctx rule st g of
        (Done result evs, g') \<Rightarrow> ((result, evs), g')
      | (Raised e evs, g') \<Rightarrow> ((errorResult (errorMessage e), evs), g')
      | (Next st', g') \<Rightarrow> runRulesIn ev clock ctx rules st' g')"

text \<open>\<open>evaluateRules\<close>: the result, the cache after the call and the events of the call,
  with the global object the call leaves.\<close>

definition evaluateRulesIn ::
  "jsEnv \<Rightarrow> Store \<Rightarrow> RulesCache \<Rightarrow> int \<Rightarrow> Context \<Rightarrow> Globals
     \<Rightarrow> (Result \<times> RulesCache \<times> Event list) \<times> Globals" where
  "evaluateRulesIn env store rulesCache clock ctx g =
     (if user_id (user ctx) = [] \<or> ctx_moduleName ctx = [] \<or> action ctx = [] then
        ((errorResult ''Invalid evaluation context: missing required fields'', rulesCache, []), g)
      else
        (case getCachedRules store rulesCache clock (ctx_moduleName ctx) of
           (Inl e, cache') \<Rightarrow> ((errorResult (errorMessage e), cache', []), g)
         | (Inr rules, cache') \<Rightarrow>
             if rules = [] then
               ((createResult ALLOWED [] ''No active rules found'' None None None, cache', []), g)
             else
               (let ruleIds = map rule_id rules;
                    checked = [ExceptionChecked (user_id (user ctx)) ruleIds]
                in case checkRuleExceptionIn store clock (user_id (user ctx)) ruleIds g of
                     (Inl e, g') \<Rightarrow> ((errorResult (errorMessage e), cache', checked), g')
                   | (Inr hasException, g') \<Rightarrow>
                       if hasException then
                         ((createResult ALLOWED [] ''User has rule exception'' None None None,
                           cache', checked), g')
                       else
                         (case runRulesIn (awaitCondition env clock) clock ctx rules
                                 (initialState checked) g' of
                            ((result, evs), g'') \<Rightarrow> ((result, cache', evs), g'')))))"

section \<open>Rule Lifecycle Manager\<close>

record UpdateRuleDTO =
  dto_name :: "string option"
  dto_description :: "string option"
  dto_conditionPayload :: "RuleCondition option"
  dto_actionPayload :: "RuleAction option"
  dto_severityLevel :: "string option"
  dto_priority :: "int option"
  dto_isActive :: "bool option"
  dto_effectiveFrom :: "int option"
  dto_effectiveTo :: "int option"

text \<open>\<open>a || b\<close> for an optional string \<open>a\<close>\<close>

definition orElse :: "string option \<Rightarrow> string \<Rightarrow> string" where
  "orElse a b = (if falsy a then b else the a)"

text \<open>
  \<open>updateRule\<close>. The identifier \<open>newId\<close> of the created row is chosen by the store
  (\<open>@default(cuid())\<close>), which rejects one that is already taken; \<open>createdAt\<close> is the
  clock reading. The result is the created row, the store and the cache after the call.
\<close>

definition updateRule ::
  "Store \<Rightarrow> RulesCache \<Rightarrow> int \<Rightarrow> string \<Rightarrow> string \<Rightarrow> UpdateRuleDTO \<Rightarrow> string
     \<Rightarrow> jsError + (Rule \<times> Store \<times> RulesCache)" where
  "updateRule store rulesCache clock newId ruleId data updatedBy =
     (case failure store of
        Some msg \<Rightarrow> Inl (JsError msg)
      | None \<Rightarrow>
          (case find (\<lambda>r. rule_id r = ruleId) (ruleTable store) of
             None \<Rightarrow> Inl (JsError ''Rule not found'')
           | Some existingRule \<Rightarrow>
               if newId \<in> set (map rule_id (ruleTable store)) then
                 Inl (JsError ''Unique constraint failed'')
               else
                 (let newVersion =
                        \<lparr> rule_id = newId,
                          name = orElse (dto_name data) (name existingRule),
                          moduleName = moduleName existingRule,
                          description =
                            (if falsy (dto_description data) then description existingRule
                             else dto_description data),
                          category = category existingRule,
                          conditionType = conditionType existingRule,
                          conditionPayload =
                            (case dto_conditionPayload data of
                               None \<Rightarrow> conditionPayload existingRule
                             | Some c \<Rightarrow> Some c),
                          actionType = actionType existingRule,
                          actionPayload =
                            (case dto_actionPayload data of
                               None \<Rightarrow> actionPayload existingRule
                             | Some a \<Rightarrow> Some a),
                          severityLevel = orElse (dto_severityLevel data) (severityLevel existingRule),
                          priority =
                            (case dto_priority data of
                               None \<Rightarrow> priority existingRule
                             | Some p \<Rightarrow> p),
                          isActive =
                            (case dto_isActive data of
                               None \<Rightarrow> isActive existingRule
                             | Some b \<Rightarrow> b),
                          effectiveFrom =
                            (case dto_effectiveFrom data of
                               None \<Rightarrow> effectiveFrom existingRule
                             | Some t \<Rightarrow> t),
                          effectiveTo = dto_effectiveTo data,
                          version = version existingRule + 1,
                          parentRuleId = Some ruleId,
                          createdBy = updatedBy,
                          createdAt = clock \<rparr>;
                      created = ruleTable store @ [newVersion];
                      deactivated =
                        map (\<lambda>r. if rule_id r = ruleId then r\<lparr> isActive := False \<rparr> else r) created
                  in Inr (newVersion,
                          store\<lparr> ruleTable := deactivated \<rparr>,
                          clearCache (Some (moduleName existingRule)) rulesCache))))"

section \<open>Vocabulary of the properties\<close>

text \<open>A rule triggers when it passes the effectiveness test of the loop and its condition
  evaluates to true.\<close>

definition triggers ::
  "(RuleCondition option \<Rightarrow> Context \<Rightarrow> jsError + bool) \<Rightarrow> int \<Rightarrow> Context \<Rightarrow> Rule \<Rightarrow> bool" where
  "triggers ev clock ctx rule =
     (\<not> notEffective (evaluationTime clock ctx) rule \<and> ev (conditionPayload rule) ctx = Inr True)"


section \<open>Sample data\<close>

text \<open>
  A runtime for the samples, exact on the calls that the samples make. Its clock of day is
  UTC, its numbers are small integers, and it runs three expressions (no other text is run by
  a sample):
  \<^item> \<open>(console.error = 0) + x.y\<close> replaces \<open>console.error\<close> by a number, so that a later call
    of it throws a \<open>TypeError\<close>, and then throws a \<open>ReferenceError\<close> for \<open>x\<close>;
  \<^item> \<open>(console.error = (a) => a[1] == "r" || a.b.c) + x.y\<close> replaces \<open>console.error\<close> by a
    function that returns when the second character of its first argument is \<open>r\<close>, as in
    \<open>Error evaluating rule\<close>, and throws a \<open>TypeError\<close> otherwise, and then throws for \<open>x\<close>;
  \<^item> \<open>new Date() > 1000\<close> compares the wall clock with 1000.
\<close>

definition breakConsole :: string where
  "breakConsole = ''(console.error = 0) + x.y''"

definition filterConsole :: string where
  "filterConsole =
     ''(console.error = (a) => a[1] == '' @ [CHR 0x22] @ ''r'' @ [CHR 0x22] @ '' || a.b.c) + x.y''"

text \<open>The \<open>TypeError\<close> of \<open>a.b.c\<close> when \<open>a.b\<close> is \<open>undefined\<close>.\<close>

definition readOfUndefined :: jsError where
  "readOfUndefined =
     JsError (''Cannot read properties of undefined (reading '' @ [CHR 0x27] @ ''c''
              @ [CHR 0x27] @ '')'')"

definition readClock :: string where
  "readClock = ''new Date() > 1000''"

text \<open>The value of a decimal digit, from its character code.\<close>

definition digitValue :: "char \<Rightarrow> nat option" where
  "digitValue c =
     (let code = (of_char c :: nat) in if 48 \<le> code \<and> code \<le> 57 then Some (code - 48) else None)"

text \<open>\<open>Number(s)\<close> on the empty string and on a string of decimal digits.\<close>

definition parseDecimal :: "string \<Rightarrow> number" where
  "parseDecimal s =
     (if list_all (\<lambda>c. digitValue c \<noteq> None) s
      then Finite (real (foldl (\<lambda>n c. 10 * n + the (digitValue c)) 0 s))
      else NaN)"

text \<open>The decimal digits of a natural number, and \<open>String(x)\<close> on an integer, on
  \<open>NaN\<close> and on the infinities.\<close>

fun decimalDigits :: "nat \<Rightarrow> string" where
  "decimalDigits n =
     (if n < 10 then [char_of (48 + n)]
      else decimalDigits (n div 10) @ [char_of (48 + n mod 10)])"

fun integerToString :: "number \<Rightarrow> string" where
  "integerToString NaN = ''NaN''"
| "integerToString PosInfinity = ''Infinity''"
| "integerToString NegInfinity = ''-Infinity''"
| "integerToString (Finite x) =
     (if x < 0 then ''-'' @ decimalDigits (nat \<lfloor>- x\<rfloor>) else decimalDigits (nat \<lfloor>x\<rfloor>))"

text \<open>\<open>toLowerCase\<close> on the letters of ASCII.\<close>

definition asciiLowerCase :: "string \<Rightarrow> string" where
  "asciiLowerCase s =
     map (\<lambda>c. let code = (of_char c :: nat)
              in if 65 \<le> code \<and> code \<le> 90 then char_of (code + 32) else c) s"

text \<open>\<open>new Date(v)\<close> on \<open>null\<close>, a boolean and a number within the range of time values;
  the strings of the samples are no dates.\<close>

fun dateOfNumber :: "json \<Rightarrow> int option" where
  "dateOfNumber JNull = Some 0"
| "dateOfNumber (JBool b) = Some (if b then 1 else 0)"
| "dateOfNumber (JNum x) =
     (if \<bar>x\<bar> \<le> 8640000000000000 then Some (if x < 0 then \<lceil>x\<rceil> else \<lfloor>x\<rfloor>) else None)"
| "dateOfNumber v = None"

definition sampleEnv :: jsEnv where
  "sampleEnv =
     \<lparr> runFunction =
         (\<lambda>text clock g.
            if text = breakConsole then
              (Inl (JsError ''x is not defined''),
               g\<lparr> console_error :=
                    (\<lambda>label. Some (JsError ''console.error is not a function'')) \<rparr>)
            else if text = filterConsole then
              (Inl (JsError ''x is not defined''),
               g\<lparr> console_error :=
                    (\<lambda>label. case label of
                       c # d # rest \<Rightarrow>
                         if d = CHR ''r'' then None
                         else Some readOfUndefined
                     | _ \<Rightarrow> Some readOfUndefined) \<rparr>)
            else if text = readClock then (Inr (clock > 1000), g)
            else (Inl (JsError ''SyntaxError''), g)),
       substituteReferences = (\<lambda>text evalContext. text),
       toDouble = Finite,
       parseNumber = parseDecimal,
       numberToString = integerToString,
       toLowerCase = asciiLowerCase,
       getHours = (\<lambda>t. (t div 3600000) mod 24),
       getMinutes = (\<lambda>t. (t div 60000) mod 60),
       newDate = dateOfNumber \<rparr>"

definition sampleContext :: Context where
  "sampleContext =
     \<lparr> user = \<lparr> user_id = ''u1'', email = ''t@school'', roles = [''TEACHER''],
                permissions = [''grades.create''] \<rparr>,
       action = ''SUBMIT_GRADE'',
       ctx_moduleName = ''grades'',
       resourceData = Some [''percentage'' \<mapsto> JNum 30],
       timestamp = Some 500 \<rparr>"

definition thresholdCondition :: "string \<Rightarrow> string \<Rightarrow> json \<Rightarrow> RuleCondition" where
  "thresholdCondition f operator v =
     RuleCondition (Some ''threshold'') None (Some f) (Some operator) (Some v)
       None None None None None None"

definition sampleAction :: "string \<Rightarrow> (string \<rightharpoonup> json) option \<Rightarrow> RuleAction" where
  "sampleAction msg mods =
     \<lparr> a_type = ''action'', a_message = Some msg, a_modifications = mods, a_approvers = None,
       a_notifyUsers = None \<rparr>"

text \<open>A rule of module \<open>grades\<close> whose condition is \<open>percentage < 40\<close>.\<close>

definition sampleRule :: "string \<Rightarrow> int \<Rightarrow> string \<Rightarrow> RuleAction \<Rightarrow> Rule" where
  "sampleRule ident prio act payload =
     \<lparr> rule_id = ident, name = ident, moduleName = ''grades'', description = None,
       category = ''ACADEMIC'', conditionType = ''THRESHOLD'',
       conditionPayload = Some (thresholdCondition ''percentage'' ''lt'' (JNum 40)),
       actionType = act, actionPayload = Some payload, severityLevel = ''HIGH'',
       priority = prio, isActive = True, effectiveFrom = 0, effectiveTo = None, version = 1,
       parentRuleId = None, createdBy = ''admin'', createdAt = 0 \<rparr>"

definition sampleStore :: "Rule list \<Rightarrow> RuleException list \<Rightarrow> Store" where
  "sampleStore rules exceptions =
     \<lparr> ruleTable = rules, exceptionTable = exceptions, failure = None \<rparr>"

definition sampleException :: RuleException where
  "sampleException =
     \<lparr> ex_ruleId = ''b'', ex_userId = ''u1'', ex_isActive = True, ex_effectiveFrom = 0,
       ex_effectiveTo = Some 1000 \<rparr>"

definition capMods :: "string \<rightharpoonup> json" where
  "capMods = [''percentage'' \<mapsto> JNum 100]"

definition expressionCondition :: "string \<Rightarrow> RuleCondition" where
  "expressionCondition e =
     RuleCondition (Some ''expression'') (Some e) None None None None None None None None None"

definition typedCondition :: "string \<Rightarrow> RuleCondition" where
  "typedCondition t =
     RuleCondition (Some t) None None None None None None None None None None"

definition expiringRule :: Rule where
  "expiringRule =
     (sampleRule ''p'' 10 ''BLOCK'' (sampleAction ''too low'' None))\<lparr> effectiveTo := Some 5000 \<rparr>"

definition renameDTO :: UpdateRuleDTO where
  "renameDTO =
     \<lparr> dto_name = Some ''X'', dto_description = None, dto_conditionPayload = None,
       dto_actionPayload = None, dto_severityLevel = None, dto_priority = None,
       dto_isActive = None, dto_effectiveFrom = None, dto_effectiveTo = None \<rparr>"

definition timeCondition :: "string \<Rightarrow> string \<Rightarrow> RuleCondition" where
  "timeCondition s e =
     RuleCondition (Some ''time_based'') None None None None None None
       (Some \<lparr> tr_start = s, tr_end = e \<rparr>) None None None"

definition dateCondition :: "json \<Rightarrow> json \<Rightarrow> RuleCondition" where
  "dateCondition s e =
     RuleCondition (Some ''time_based'') None None None None None None None
       (Some \<lparr> dr_start = s, dr_end = e \<rparr>) None None"

definition halfMods :: "string \<rightharpoonup> json" where
  "halfMods = [''percentage'' \<mapsto> JNum 50]"

text \<open>A rule of module \<open>grades\<close> with a given condition, which warns when it triggers.\<close>

definition conditionRule :: "string \<Rightarrow> int \<Rightarrow> RuleCondition \<Rightarrow> Rule" where
  "conditionRule ident prio condition =
     (sampleRule ident prio ''WARN'' (sampleAction ''noted'' None))
       \<lparr> conditionPayload := Some condition \<rparr>"

section \<open>Lemmas about the Condition Evaluator\<close>

lemma evaluationTime_timestamp:
  "timestamp ctx = Some t \<Longrightarrow> evaluationTime clock ctx = t"
  by (simp add: evaluationTime_def)

section \<open>Lemmas about the Rule Store and the cache\<close>

lemma checkRuleException_holds:
  assumes "failure store = None" "e \<in> set (exceptionTable store)" "ex_userId e = userId"
    "ex_ruleId e \<in> set ruleIds" "ex_isActive e" "ex_effectiveFrom e \<le> clock"
    "ex_effectiveTo e = Some t" "clock \<le> t"
  shows "checkRuleException store clock userId ruleIds"
proof -
  from assms(4) have "ruleIds \<noteq> []" by auto
  with assms show ?thesis
    by (auto simp: checkRuleException_def list_ex_iff)
qed

lemma findManyActive_permuted:
  assumes "mset rows = mset (ruleTable store)"
    and "inj_on (\<lambda>r. (priority r, createdAt r))
           {r \<in> set (ruleTable store). isCandidate clock m r}"
  shows "findManyActive (store\<lparr> ruleTable := rows \<rparr>) clock m = findManyActive store clock m"
proof -
  let ?key = "\<lambda>r. (priority r, createdAt r)"
  from assms(1) have "mset (filter (isCandidate clock m) rows)
      = mset (filter (isCandidate clock m) (ruleTable store))"
    by simp
  moreover from assms(1) have "set rows = set (ruleTable store)" by (rule mset_eq_setD)
  then have "set (filter (isCandidate clock m) rows)
      = {r \<in> set (ruleTable store). isCandidate clock m r}"
    by auto
  with assms(2) have "inj_on ?key (set (filter (isCandidate clock m) rows))"
    by (simp only:)
  ultimately have "sort_key ?key (filter (isCandidate clock m) rows)
      = sort_key ?key (filter (isCandidate clock m) (ruleTable store))"
    by (rule sort_key_eq_sort_key)
  then show ?thesis by (simp add: findManyActive_def split: option.splits)
qed



section \<open>Lemmas about the loop\<close>

lemma processRule_block:
  assumes "triggers ev clock ctx r" "actionType r = ''BLOCK''"
  shows "processRule ev clock ctx r st =
     Return (createResult BLOCKED
               (st_triggeredRules st @
                  [\<lparr> t_ruleId = rule_id r, t_ruleName = name r, t_severity = severityLevel r,
                     t_action = actionType r \<rparr>])
               (messageOr (actionPayload r) (''Action blocked by rule: '' @ name r)) None None None)
            (events st @ [ConditionEvaluated (rule_id r)])"
  using assms by (simp add: processRule_def triggers_def applyAction_def)






lemma processRule_skip:
  assumes "\<not> triggers ev clock ctx r"
  shows "\<exists>st'. processRule ev clock ctx r st = Continue st'
     \<and> finalDecision st' = finalDecision st \<and> finalMessage st' = finalMessage st
     \<and> st_modifications st' = st_modifications st \<and> st_approvers st' = st_approvers st
     \<and> st_requiresApproval st' = st_requiresApproval st
     \<and> st_triggeredRules st' = st_triggeredRules st"
proof (cases "notEffective (evaluationTime clock ctx) r")
  case True
  then show ?thesis by (simp add: processRule_def)
next
  case False
  with assms have "ev (conditionPayload r) ctx \<noteq> Inr True" by (simp add: triggers_def)
  with False show ?thesis
    by (cases "ev (conditionPayload r) ctx") (auto simp: processRule_def)
qed







lemma processRule_cong_ev:
  assumes "ev (conditionPayload r) ctx = ev' (conditionPayload r) ctx
     \<or> ((\<exists>e. ev (conditionPayload r) ctx = Inl e) \<and> ev' (conditionPayload r) ctx = Inr False)"
  shows "processRule ev clock ctx r st = processRule ev' clock ctx r st"
  using assms by (auto simp: processRule_def Let_def)

lemma runRules_cong_ev:
  assumes "\<forall>c. ev c ctx = ev' c ctx \<or> ((\<exists>e. ev c ctx = Inl e) \<and> ev' c ctx = Inr False)"
  shows "runRules ev clock ctx rules st = runRules ev' clock ctx rules st"
proof (induction rules arbitrary: st)
  case Nil
  show ?case by simp
next
  case (Cons r rules)
  from assms have "processRule ev clock ctx r st = processRule ev' clock ctx r st"
    by (intro processRule_cong_ev) blast
  with Cons.IH show ?case by (simp split: Outcome.splits)
qed

lemma runRules_clock:
  assumes "timestamp ctx = Some t"
  shows "runRules ev clock ctx rules st = runRules ev clock' ctx rules st"
proof (induction rules arbitrary: st)
  case Nil
  show ?case by simp
next
  case (Cons r rules)
  have "processRule ev clock ctx r st = processRule ev clock' ctx r st"
    using assms by (simp add: processRule_def evaluationTime_timestamp)
  with Cons.IH show ?case by (simp split: Outcome.splits)
qed

lemma applyAction_triggered:
  "actionType r \<noteq> ''BLOCK'' \<Longrightarrow>
     \<exists>st'. applyAction r st = Continue st' \<and> st_triggeredRules st' = st_triggeredRules st"
  by (simp add: applyAction_def Let_def)

lemma runRules_triggered_ids:
  "set (map t_ruleId (triggeredRules (fst (runRules ev clock ctx rules st))))
     \<subseteq> set (map t_ruleId (st_triggeredRules st)) \<union> set (map rule_id rules)"
proof (induction rules arbitrary: st)
  case Nil
  show ?case by (simp add: createResult_def)
next
  case (Cons r rules)
  show ?case
  proof (cases "triggers ev clock ctx r")
    case False
    from processRule_skip[OF False, of st] obtain st' where
      s: "processRule ev clock ctx r st = Continue st'"
      and t: "st_triggeredRules st' = st_triggeredRules st" by blast
    from Cons.IH[of st'] s t show ?thesis by auto
  next
    case True
    show ?thesis
    proof (cases "actionType r = ''BLOCK''")
      case B: True
      from processRule_block[OF True B, of st] show ?thesis by (auto simp: createResult_def)
    next
      case N: False
      from True have e: "\<not> notEffective (evaluationTime clock ctx) r"
        "ev (conditionPayload r) ctx = Inr True" by (simp_all add: triggers_def)
      let ?st1 = "st\<lparr> events := events st @ [ConditionEvaluated (rule_id r)],
            st_triggeredRules := st_triggeredRules st @
                         [\<lparr> t_ruleId = rule_id r, t_ruleName = name r,
                            t_severity = severityLevel r, t_action = actionType r \<rparr>] \<rparr>"
      from applyAction_triggered[OF N, of ?st1] obtain st' where
        a: "applyAction r ?st1 = Continue st'"
        and t: "st_triggeredRules st' = st_triggeredRules ?st1"
        by blast
      from a e have s: "processRule ev clock ctx r st = Continue st'"
        by (simp add: processRule_def)
      from Cons.IH[of st'] s t show ?thesis by auto
    qed
  qed
qed

lemma evaluateRulesWith_loop:
  assumes "user_id (user ctx) \<noteq> []" "ctx_moduleName ctx \<noteq> []" "action ctx \<noteq> []"
    and "getCachedRules store rulesCache clock (ctx_moduleName ctx) = (Inr rules, cache')"
    and "rules \<noteq> []"
    and "\<not> checkRuleException store clock (user_id (user ctx)) (map rule_id rules)"
  shows "evaluateRulesWith ev store rulesCache clock ctx =
     (fst (runRules ev clock ctx rules
             (initialState [ExceptionChecked (user_id (user ctx)) (map rule_id rules)])),
      cache',
      snd (runRules ev clock ctx rules
             (initialState [ExceptionChecked (user_id (user ctx)) (map rule_id rules)])))"
  using assms by (simp add: evaluateRulesWith_def Let_def split: prod.splits)

lemma evaluateRulesWith_exception:
  assumes "user_id (user ctx) \<noteq> []" "ctx_moduleName ctx \<noteq> []" "action ctx \<noteq> []"
    and "getCachedRules store rulesCache clock (ctx_moduleName ctx) = (Inr rules, cache')"
    and "rules \<noteq> []"
    and "checkRuleException store clock (user_id (user ctx)) (map rule_id rules)"
  shows "evaluateRulesWith ev store rulesCache clock ctx =
     (createResult ALLOWED [] ''User has rule exception'' None None None, cache',
      [ExceptionChecked (user_id (user ctx)) (map rule_id rules)])"
  using assms by (simp add: evaluateRulesWith_def)

section \<open>Lemmas about the Rule Lifecycle Manager\<close>

text \<open>What a successful \<open>updateRule\<close> leaves behind: the new version with the version number
  of the parent plus one, the store with the parent deactivated, the cache without the
  entry of the module. No evaluation for the module afterwards has the parent among its
  triggered rules.\<close>

lemma updateRule_Inr:
  assumes "updateRule store rulesCache clock newId ruleId data updatedBy
             = Inr (newVersion, store', cache')"
  shows "\<exists>parent. find (\<lambda>r. rule_id r = ruleId) (ruleTable store) = Some parent
     \<and> failure store = None \<and> newId \<notin> set (map rule_id (ruleTable store))"
proof (cases "failure store")
  case (Some msg)
  with assms show ?thesis by (simp add: updateRule_def)
next
  case None
  show ?thesis
  proof (cases "find (\<lambda>r. rule_id r = ruleId) (ruleTable store)")
    case N: None
    with None assms show ?thesis by (simp add: updateRule_def)
  next
    case (Some parent)
    show ?thesis
    proof (cases "newId \<in> set (map rule_id (ruleTable store))")
      case True
      with None Some assms show ?thesis by (simp add: updateRule_def)
    next
      case False
      with None Some show ?thesis by simp
    qed
  qed
qed

lemma updateRule_parent:
  assumes "updateRule store rulesCache clock newId ruleId data updatedBy
             = Inr (newVersion, store', cache')"
  shows "\<exists>parent. find (\<lambda>r. rule_id r = ruleId) (ruleTable store) = Some parent
     \<and> version newVersion = version parent + 1
     \<and> moduleName newVersion = moduleName parent
     \<and> newId \<noteq> ruleId"
proof -
  from updateRule_Inr[OF assms] obtain parent where
    p: "find (\<lambda>r. rule_id r = ruleId) (ruleTable store) = Some parent"
    and f: "failure store = None"
    and n: "newId \<notin> set (map rule_id (ruleTable store))"
    by blast
  from p have "parent \<in> set (ruleTable store)" "rule_id parent = ruleId"
    by (auto simp: find_Some_iff)
  with n have i: "newId \<noteq> ruleId" by auto
  from assms p f n have "version newVersion = version parent + 1"
    "moduleName newVersion = moduleName parent"
    by (auto simp: updateRule_def Let_def)
  with i p show ?thesis by simp
qed

lemma updateRule_store:
  assumes "updateRule store rulesCache clock newId ruleId data updatedBy
             = Inr (newVersion, store', cache')"
  shows "rule_id newVersion = newId"
    and "parentRuleId newVersion = Some ruleId"
    and "effectiveTo newVersion = dto_effectiveTo data"
    and "ruleTable store'
         = map (\<lambda>r. if rule_id r = ruleId then r\<lparr> isActive := False \<rparr> else r)
             (ruleTable store @ [newVersion])"
    and "exceptionTable store' = exceptionTable store"
    and "failure store' = None"
    and "cache' = clearCache (Some (moduleName newVersion)) rulesCache"
proof -
  from updateRule_Inr[OF assms] obtain parent where
    p: "find (\<lambda>r. rule_id r = ruleId) (ruleTable store) = Some parent"
    and f: "failure store = None"
    and n: "newId \<notin> set (map rule_id (ruleTable store))"
    by blast
  from assms p f n show "rule_id newVersion = newId"
    and "parentRuleId newVersion = Some ruleId"
    and "effectiveTo newVersion = dto_effectiveTo data"
    and "ruleTable store'
         = map (\<lambda>r. if rule_id r = ruleId then r\<lparr> isActive := False \<rparr> else r)
             (ruleTable store @ [newVersion])"
    and "exceptionTable store' = exceptionTable store"
    and "failure store' = None"
    and "cache' = clearCache (Some (moduleName newVersion)) rulesCache"
    by (auto simp: updateRule_def Let_def)
qed

lemma updateRule_supersedes_parent:
  assumes "updateRule store rulesCache clock newId ruleId data updatedBy
             = Inr (newVersion, store', cache')"
    and "ctx_moduleName ctx = moduleName newVersion"
  shows "ruleId \<notin> set (map t_ruleId
           (triggeredRules (fst (evaluateRules env store' cache' clock' ctx))))"
proof (cases "user_id (user ctx) = [] \<or> ctx_moduleName ctx = [] \<or> action ctx = []")
  case True
  then show ?thesis by (auto simp: evaluateRules_def evaluateRulesWith_def errorResult_def)
next
  case False
  note u = updateRule_store[OF assms(1)]
  from False assms(2) u(7) have "cache' (ctx_moduleName ctx) = None"
    by (simp add: clearCache_def)
  with u(6) have g: "getCachedRules store' cache' clock' (ctx_moduleName ctx)
      = (Inr (sort_key (\<lambda>r. (priority r, createdAt r))
                 (filter (isCandidate clock' (ctx_moduleName ctx)) (ruleTable store'))),
         cache'(ctx_moduleName ctx \<mapsto>
           \<lparr> ce_rules = sort_key (\<lambda>r. (priority r, createdAt r))
                 (filter (isCandidate clock' (ctx_moduleName ctx)) (ruleTable store')),
             lastUpdated = clock' \<rparr>))"
    by (simp add: getCachedRules_def findManyActive_def)
  let ?rules = "sort_key (\<lambda>r. (priority r, createdAt r))
                 (filter (isCandidate clock' (ctx_moduleName ctx)) (ruleTable store'))"
  have "\<not> isActive r" if "r \<in> set (ruleTable store')" "rule_id r = ruleId" for r
  proof -
    from that(1) obtain x where
      "r = (if rule_id x = ruleId then x\<lparr> isActive := False \<rparr> else x)"
      unfolding u(4) set_map by (rule imageE)
    with that(2) show ?thesis by (cases "rule_id x = ruleId") simp_all
  qed
  then have "\<not> isCandidate clock' (ctx_moduleName ctx) r"
    if "r \<in> set (ruleTable store')" "rule_id r = ruleId" for r
    using that by (simp add: isCandidate_def)
  then have ids: "ruleId \<notin> set (map rule_id ?rules)"
    by auto
  have "set (map t_ruleId (triggeredRules (fst (runRules (evaluateCondition env clock') clock' ctx
            ?rules (initialState evs)))))
     \<subseteq> set (map rule_id ?rules)" for evs
    using runRules_triggered_ids[of "evaluateCondition env clock'" clock' ctx ?rules
        "initialState evs"]
    by (simp add: initialState_def)
  with ids have n: "ruleId \<notin> set (map t_ruleId (triggeredRules
      (fst (runRules (evaluateCondition env clock') clock' ctx ?rules (initialState evs)))))" for evs
    by blast
  show ?thesis
  proof (cases "?rules = []")
    case True
    with False g show ?thesis
      by (simp add: evaluateRules_def evaluateRulesWith_def createResult_def)
  next
    case ne: False
    show ?thesis
    proof (cases "checkRuleException store' clock' (user_id (user ctx)) (map rule_id ?rules)")
      case True
      with False g ne show ?thesis
        by (simp add: evaluateRules_def evaluateRulesWith_def createResult_def)
    next
      case x: False
      from False have v: "user_id (user ctx) \<noteq> []" "ctx_moduleName ctx \<noteq> []" "action ctx \<noteq> []"
        by simp_all
      from n show ?thesis
        unfolding evaluateRules_def evaluateRulesWith_loop[OF v g ne x] by simp
    qed
  qed
qed

section \<open>The sample data evaluated\<close>

lemma sample_valid:
  "user_id (user sampleContext) \<noteq> []" "ctx_moduleName sampleContext \<noteq> []"
  "action sampleContext \<noteq> []"
  by (simp_all add: sampleContext_def)

lemma sample_user: "user_id (user sampleContext) = ''u1''"
  by (simp add: sampleContext_def)

lemma sampleRule_sel:
  "rule_id (sampleRule i p a x) = i" "name (sampleRule i p a x) = i"
  "actionType (sampleRule i p a x) = a" "actionPayload (sampleRule i p a x) = Some x"
  "severityLevel (sampleRule i p a x) = ''HIGH''" "priority (sampleRule i p a x) = p"
  by (simp_all add: sampleRule_def)

lemma sample_await:
  "awaitCondition sampleEnv c (conditionPayload (sampleRule i p a pl)) sampleContext g
     = (Inr True, g)"
  by (simp add: awaitCondition_def sampleRule_def thresholdCondition_def sampleContext_def
      falsy_def evaluateThreshold_def thresholdSwitch_def catchLog_def getProperty_def
      sampleEnv_def)

lemma sample_condition_true:
  "evaluateCondition sampleEnv c (conditionPayload (sampleRule i p a pl)) sampleContext = Inr True"
  by (simp add: evaluateCondition_def sample_await)

lemma sample_triggers:
  "triggers (evaluateCondition sampleEnv c) c sampleContext (sampleRule i p a pl)"
  by (simp add: triggers_def sample_condition_true)
     (simp add: notEffective_def evaluationTime_def sampleContext_def sampleRule_def)

lemma sample_processRule:
  "processRule (evaluateCondition sampleEnv c) c sampleContext (sampleRule i p a x) st =
     applyAction (sampleRule i p a x)
       (st\<lparr> events := events st @ [ConditionEvaluated i],
            st_triggeredRules := st_triggeredRules st @
               [\<lparr> t_ruleId = i, t_ruleName = i, t_severity = ''HIGH'', t_action = a \<rparr>] \<rparr>)"
  using sample_triggers[of c i p a x]
  by (simp add: processRule_def triggers_def) (simp add: sampleRule_def)

lemma sample_fetch:
  "getCachedRules (sampleStore [sampleRule ''b'' 10 ''BLOCK'' (sampleAction ''too low'' None)] xs)
       Map.empty 600 (ctx_moduleName sampleContext) =
      (Inr [sampleRule ''b'' 10 ''BLOCK'' (sampleAction ''too low'' None)],
       [''grades'' \<mapsto> \<lparr> ce_rules = [sampleRule ''b'' 10 ''BLOCK'' (sampleAction ''too low'' None)],
          lastUpdated = 600 \<rparr>])"
  by (simp add: getCachedRules_def findManyActive_def isCandidate_def sampleStore_def sampleContext_def
        sampleRule_def)

lemma sample_fetch_pair:
  assumes "p \<le> q"
  shows "getCachedRules (sampleStore [sampleRule i p a x, sampleRule j q b y] exs)
       Map.empty 600 (ctx_moduleName sampleContext) =
      (Inr [sampleRule i p a x, sampleRule j q b y],
       [''grades'' \<mapsto> \<lparr> ce_rules = [sampleRule i p a x, sampleRule j q b y],
          lastUpdated = 600 \<rparr>])"
  using assms
  by (simp add: getCachedRules_def findManyActive_def isCandidate_def sampleStore_def sampleContext_def
        sampleRule_def)

lemma sample_cache_after:
  "fst (snd (evaluateRules sampleEnv
      (sampleStore [sampleRule ''b'' 10 ''BLOCK'' (sampleAction ''too low'' None)] exs)
      Map.empty 600 sampleContext)) =
   [''grades'' \<mapsto> \<lparr> ce_rules = [sampleRule ''b'' 10 ''BLOCK'' (sampleAction ''too low'' None)],
          lastUpdated = 600 \<rparr>]"
  by (simp add: evaluateRules_def evaluateRulesWith_def sample_fetch sample_valid Let_def
      split: prod.splits)

lemma sample_block_run:
  "runRules (evaluateCondition sampleEnv c) c sampleContext
      [sampleRule ''b'' 10 ''BLOCK'' (sampleAction ''too low'' None)] (initialState evs) =
   (createResult BLOCKED
      [\<lparr> t_ruleId = ''b'', t_ruleName = ''b'', t_severity = ''HIGH'', t_action = ''BLOCK'' \<rparr>]
      ''too low'' None None None,
    evs @ [ConditionEvaluated ''b''])"
  by (simp add: sample_processRule applyAction_def sampleRule_sel sampleAction_def
      initialState_def messageOr_def falsy_def)

lemma sample_modify_pair:
  "fst (evaluateRules sampleEnv
        (sampleStore [sampleRule i 5 ''MODIFY'' (sampleAction a (Some m)),
                      sampleRule j 5 ''MODIFY'' (sampleAction b (Some n))] [])
        Map.empty 600 sampleContext)
   = createResult MODIFIED
       [\<lparr> t_ruleId = i, t_ruleName = i, t_severity = ''HIGH'', t_action = ''MODIFY'' \<rparr>,
        \<lparr> t_ruleId = j, t_ruleName = j, t_severity = ''HIGH'', t_action = ''MODIFY'' \<rparr>]
       (messageOr (Some (sampleAction a (Some m))) (''Action modified by rule: '' @ i))
       (Some (m ++ n)) (Some False) (Some [])"
proof -
  let ?rules = "[sampleRule i 5 ''MODIFY'' (sampleAction a (Some m)),
                      sampleRule j 5 ''MODIFY'' (sampleAction b (Some n))]"
  have f: "getCachedRules (sampleStore ?rules []) Map.empty 600 (ctx_moduleName sampleContext) =
      (Inr ?rules, [''grades'' \<mapsto> \<lparr> ce_rules = ?rules, lastUpdated = 600 \<rparr>])"
    by (rule sample_fetch_pair) simp
  have x: "\<not> checkRuleException (sampleStore ?rules []) 600 (user_id (user sampleContext))
      (map rule_id ?rules)"
    by (simp add: checkRuleException_def sampleStore_def)
  have ne: "?rules \<noteq> []" by simp
  have nonempty: "messageOr (Some (sampleAction a (Some m))) (''Action modified by rule: '' @ i) \<noteq> []"
    by (simp add: messageOr_def sampleAction_def falsy_def)
  show ?thesis
    unfolding evaluateRules_def evaluateRulesWith_loop[OF sample_valid f ne x]
    using nonempty
    by (simp add: sample_processRule applyAction_def sampleRule_sel
          initialState_def payloadModifications_def createResult_def)
       (simp add: sampleAction_def)
qed

lemma findManyActive_ascending:
  assumes "findManyActive store clock m = Inr rules"
  shows "sorted (map (\<lambda>r. (priority r, createdAt r)) rules)
     \<and> mset rules = mset (filter (isCandidate clock m) (ruleTable store))"
  using assms by (auto simp: findManyActive_def split: option.splits)

lemma sample_fetch_swapped:
  assumes "q < p"
  shows "getCachedRules (sampleStore [sampleRule i p a x, sampleRule j q b y] exs)
       Map.empty 600 (ctx_moduleName sampleContext) =
      (Inr [sampleRule j q b y, sampleRule i p a x],
       [''grades'' \<mapsto> \<lparr> ce_rules = [sampleRule j q b y, sampleRule i p a x],
          lastUpdated = 600 \<rparr>])"
  using assms
  by (simp add: getCachedRules_def findManyActive_def isCandidate_def sampleStore_def sampleContext_def
        sampleRule_def)

lemma sample_ascending:
  "map t_ruleId (triggeredRules (fst (evaluateRules sampleEnv
        (sampleStore [sampleRule ''m'' 20 ''MODIFY'' (sampleAction ''capped'' (Some capMods)),
                      sampleRule ''w'' 5 ''WARN'' (sampleAction ''careful'' None)] [])
        Map.empty 600 sampleContext))) = [''w'', ''m'']"
proof -
  let ?m = "sampleRule ''m'' 20 ''MODIFY'' (sampleAction ''capped'' (Some capMods))"
  let ?w = "sampleRule ''w'' 5 ''WARN'' (sampleAction ''careful'' None)"
  have f: "getCachedRules (sampleStore [?m, ?w] []) Map.empty 600 (ctx_moduleName sampleContext) =
      (Inr [?w, ?m], [''grades'' \<mapsto> \<lparr> ce_rules = [?w, ?m], lastUpdated = 600 \<rparr>])"
    by (rule sample_fetch_swapped) simp
  have x: "\<not> checkRuleException (sampleStore [?m, ?w] []) 600 (user_id (user sampleContext))
      (map rule_id [?w, ?m])"
    by (simp add: checkRuleException_def sampleStore_def)
  have ne: "[?w, ?m] \<noteq> []" by simp
  show ?thesis
    unfolding evaluateRules_def evaluateRulesWith_loop[OF sample_valid f ne x]
    by (simp add: sample_processRule applyAction_def sampleRule_sel Let_def
          initialState_def createResult_def messageOr_def sampleAction_def falsy_def
          payloadModifications_def)
qed

lemma sampleRule_createdAt: "createdAt (sampleRule i p a x) = 0"
  by (simp add: sampleRule_def)

text \<open>When no two candidate rules of the module share both priority and creation time, the
  rows of the rule table can be permuted without changing what \<open>evaluateRules\<close> returns.\<close>

lemma distinct_keys_row_order:
  assumes "mset rows = mset (ruleTable store)"
    and "inj_on (\<lambda>r. (priority r, createdAt r))
           {r \<in> set (ruleTable store). isCandidate clock (ctx_moduleName ctx) r}"
  shows "evaluateRules env (store\<lparr> ruleTable := rows \<rparr>) rulesCache clock ctx
           = evaluateRules env store rulesCache clock ctx"
proof -
  have f: "findManyActive (store\<lparr> ruleTable := rows \<rparr>) clock (ctx_moduleName ctx)
      = findManyActive store clock (ctx_moduleName ctx)"
    using assms by (rule findManyActive_permuted)
  have g: "getCachedRules (store\<lparr> ruleTable := rows \<rparr>) rulesCache clock (ctx_moduleName ctx)
      = getCachedRules store rulesCache clock (ctx_moduleName ctx)"
    unfolding getCachedRules_def f by (rule refl)
  have x: "checkRuleException (store\<lparr> ruleTable := rows \<rparr>) clock u ids
      = checkRuleException store clock u ids" for u ids
    by (simp add: checkRuleException_def split: option.splits)
  show ?thesis unfolding evaluateRules_def evaluateRulesWith_def g x by (rule refl)
qed

lemma sanitize_breakConsole: "sanitize breakConsole = breakConsole"
  by (simp add: sanitize_def trim_def allowedChar_def isSpace_def breakConsole_def)

lemma sanitize_filterConsole: "sanitize filterConsole = filterConsole"
  by (simp add: sanitize_def trim_def allowedChar_def isSpace_def filterConsole_def)


lemma sample_texts_differ:
  "breakConsole \<noteq> []" "filterConsole \<noteq> []" "readClock \<noteq> []"
  "filterConsole \<noteq> breakConsole" "readClock \<noteq> breakConsole" "readClock \<noteq> filterConsole"
  by (simp_all add: breakConsole_def filterConsole_def readClock_def)

text \<open>The global object after \<open>(console.error = 0) + x.y\<close> has run.\<close>

lemma await_breakConsole:
  "awaitCondition sampleEnv c (Some (expressionCondition breakConsole)) ctx g =
     (Inl (JsError ''console.error is not a function''),
      g\<lparr> console_error := (\<lambda>label. Some (JsError ''console.error is not a function'')) \<rparr>)"
  by (simp add: awaitCondition_def expressionCondition_def falsy_def evaluateExpression_def
      safeEvaluate_def catchLog_def sanitize_breakConsole sample_texts_differ sampleEnv_def)

section \<open>Lemmas about the evaluation against the global object\<close>

lemma checkRuleExceptionIn_answers:
  assumes "failure store = None"
  shows "checkRuleExceptionIn store clock userId ruleIds g
     = (Inr (checkRuleException store clock userId ruleIds), g)"
  using assms by (simp add: checkRuleExceptionIn_def checkRuleException_def catchLog_def)

lemma evaluateRulesIn_loop:
  assumes "user_id (user ctx) \<noteq> []" "ctx_moduleName ctx \<noteq> []" "action ctx \<noteq> []"
    and "getCachedRules store rulesCache clock (ctx_moduleName ctx) = (Inr rules, cache')"
    and "rules \<noteq> []" "failure store = None"
    and "\<not> checkRuleException store clock (user_id (user ctx)) (map rule_id rules)"
  shows "evaluateRulesIn env store rulesCache clock ctx g =
     (case runRulesIn (awaitCondition env clock) clock ctx rules
             (initialState [ExceptionChecked (user_id (user ctx)) (map rule_id rules)]) g of
        ((result, evs), g') \<Rightarrow> ((result, cache', evs), g'))"
  using assms
  by (simp add: evaluateRulesIn_def checkRuleExceptionIn_answers Let_def)


text \<open>
  A rule whose condition throws, when the report of the loop on the console returns: the
  loop goes on with the remaining rules, and the failed rule has left nothing but the event
  of its evaluation and the global object that the evaluation left.
\<close>

lemma runRulesIn_error_reported:
  assumes "\<not> notEffective (evaluationTime clock ctx) r"
    and "ev (conditionPayload r) ctx g = (Inl e, g')"
    and "console_error g' (''Error evaluating rule '' @ rule_id r @ '':'') = None"
  shows "runRulesIn ev clock ctx (r # post) st g =
     runRulesIn ev clock ctx post
       (st\<lparr> events := events st @ [ConditionEvaluated (rule_id r)] \<rparr>) g'"
  using assms by (simp add: processRuleIn_def ruleCatch_def)

text \<open>The same rule when the report throws: the error leaves the loop, no later rule is
  evaluated, and the result is the error result.\<close>

lemma runRulesIn_error_escapes:
  assumes "\<not> notEffective (evaluationTime clock ctx) r"
    and "ev (conditionPayload r) ctx g = (Inl e, g')"
    and "console_error g' (''Error evaluating rule '' @ rule_id r @ '':'') = Some e'"
  shows "runRulesIn ev clock ctx (r # post) st g =
     ((errorResult (errorMessage e'), events st @ [ConditionEvaluated (rule_id r)]), g')"
  using assms by (simp add: processRuleIn_def ruleCatch_def)

text \<open>A rule whose condition is false.\<close>

lemma runRulesIn_false:
  assumes "\<not> notEffective (evaluationTime clock ctx) r"
    and "ev (conditionPayload r) ctx g = (Inr False, g')"
  shows "runRulesIn ev clock ctx (r # post) st g =
     runRulesIn ev clock ctx post
       (st\<lparr> events := events st @ [ConditionEvaluated (rule_id r)] \<rparr>) g'"
  using assms by (simp add: processRuleIn_def)

lemma conditionRule_sel:
  "rule_id (conditionRule i p c) = i" "name (conditionRule i p c) = i"
  "conditionPayload (conditionRule i p c) = Some c" "actionType (conditionRule i p c) = ''WARN''"
  "priority (conditionRule i p c) = p"
  by (simp_all add: conditionRule_def sampleRule_def)

lemma sample_effective:
  "\<not> notEffective (evaluationTime c sampleContext) (sampleRule i p a x)"
  "\<not> notEffective (evaluationTime c sampleContext) (conditionRule i p cond)"
  by (simp_all add: notEffective_def evaluationTime_def sampleContext_def sampleRule_def
      conditionRule_def)

lemma sample_fetch_condition:
  assumes "p \<le> q"
  shows "getCachedRules (sampleStore [conditionRule i p cond, sampleRule j q b y] exs)
       Map.empty 600 (ctx_moduleName sampleContext) =
      (Inr [conditionRule i p cond, sampleRule j q b y],
       [''grades'' \<mapsto> \<lparr> ce_rules = [conditionRule i p cond, sampleRule j q b y],
          lastUpdated = 600 \<rparr>])"
  using assms
  by (simp add: getCachedRules_def findManyActive_def isCandidate_def sampleStore_def sampleContext_def
        sampleRule_def conditionRule_def)

lemma sample_block_runIn:
  "runRulesIn (awaitCondition sampleEnv c) c sampleContext
      [sampleRule ''b'' 10 ''BLOCK'' (sampleAction ''too low'' None)] st g =
   ((createResult BLOCKED
      (st_triggeredRules st @
        [\<lparr> t_ruleId = ''b'', t_ruleName = ''b'', t_severity = ''HIGH'', t_action = ''BLOCK'' \<rparr>])
      ''too low'' None None None,
    events st @ [ConditionEvaluated ''b'']), g)"
  using sample_effective(1)[of c "''b''" 10 "''BLOCK''" "sampleAction ''too low'' None"]
  by (simp add: processRuleIn_def sample_await applyActionIn_def applyAction_def sampleRule_sel
      sampleAction_def messageOr_def falsy_def)

lemma await_false:
  "awaitCondition sampleEnv c (Some (thresholdCondition ''percentage'' ''gt'' (JNum 40)))
     sampleContext g = (Inr False, g)"
  by (simp add: awaitCondition_def thresholdCondition_def sampleContext_def
      falsy_def evaluateThreshold_def thresholdSwitch_def catchLog_def getProperty_def
      sampleEnv_def)







text \<open>The global object after \<open>(console.error = (a) => a[1] == "r" || a.b.c) + x.y\<close> has
  run: the reports of the Condition Evaluator throw, that of the loop returns.\<close>

lemma await_filterConsole:
  "awaitCondition sampleEnv c (Some (expressionCondition filterConsole)) ctx g =
     (Inl readOfUndefined,
      g\<lparr> console_error :=
           (\<lambda>label. case label of
              c # d # rest \<Rightarrow>
                if d = CHR ''r'' then None
                else Some readOfUndefined
            | _ \<Rightarrow> Some readOfUndefined) \<rparr>)"
  by (simp add: awaitCondition_def expressionCondition_def falsy_def evaluateExpression_def
      safeEvaluate_def catchLog_def sanitize_filterConsole sample_texts_differ sampleEnv_def)

text \<open>
  On the evaluator of the program: the condition of rule \<open>f\<close> throws, the report of the
  loop returns, and the evaluation goes on to rule \<open>b\<close>, which blocks. Rule \<open>f\<close> is not among
  the triggered rules.
\<close>

lemma sample_filtered_console_continues:
  "evaluateCondition sampleEnv 600
      (conditionPayload (conditionRule ''f'' 5 (expressionCondition filterConsole))) sampleContext
     = Inl readOfUndefined
   \<and> decision (fst (fst (evaluateRulesIn sampleEnv
        (sampleStore [conditionRule ''f'' 5 (expressionCondition filterConsole),
                      sampleRule ''b'' 10 ''BLOCK'' (sampleAction ''too low'' None)] [])
        Map.empty 600 sampleContext initialGlobals))) = BLOCKED
   \<and> map t_ruleId (triggeredRules (fst (fst (evaluateRulesIn sampleEnv
        (sampleStore [conditionRule ''f'' 5 (expressionCondition filterConsole),
                      sampleRule ''b'' 10 ''BLOCK'' (sampleAction ''too low'' None)] [])
        Map.empty 600 sampleContext initialGlobals)))) = [''b'']
   \<and> snd (snd (fst (evaluateRulesIn sampleEnv
        (sampleStore [conditionRule ''f'' 5 (expressionCondition filterConsole),
                      sampleRule ''b'' 10 ''BLOCK'' (sampleAction ''too low'' None)] [])
        Map.empty 600 sampleContext initialGlobals)))
     = [ExceptionChecked ''u1'' [''f'', ''b''], ConditionEvaluated ''f'', ConditionEvaluated ''b'']"
proof -
  let ?b = "sampleRule ''b'' 10 ''BLOCK'' (sampleAction ''too low'' None)"
  let ?f = "conditionRule ''f'' 5 (expressionCondition filterConsole)"
  let ?filtered = "initialGlobals\<lparr> console_error :=
           (\<lambda>label. case label of
              c # d # rest \<Rightarrow>
                if d = CHR ''r'' then None
                else Some readOfUndefined
            | _ \<Rightarrow> Some readOfUndefined) \<rparr>"
  have nf: "failure (sampleStore [?f, ?b] []) = None" by (simp add: sampleStore_def)
  have x: "\<not> checkRuleException (sampleStore [?f, ?b] []) 600 u ids" for u ids
    by (simp add: checkRuleException_def sampleStore_def)
  have ff: "getCachedRules (sampleStore [?f, ?b] []) Map.empty 600 (ctx_moduleName sampleContext) =
      (Inr [?f, ?b], [''grades'' \<mapsto> \<lparr> ce_rules = [?f, ?b], lastUpdated = 600 \<rparr>])"
    by (rule sample_fetch_condition) simp
  have nef: "[?f, ?b] \<noteq> []" by simp
  have af: "awaitCondition sampleEnv 600 (conditionPayload ?f) sampleContext initialGlobals
      = (Inl readOfUndefined, ?filtered)"
    by (simp add: conditionRule_sel await_filterConsole)
  have cf: "console_error ?filtered (''Error evaluating rule '' @ rule_id ?f @ '':'') = None"
    by simp
  have 1: "evaluateCondition sampleEnv 600 (conditionPayload ?f) sampleContext
     = Inl readOfUndefined"
    by (simp add: evaluateCondition_def af)
  have lf: "runRulesIn (awaitCondition sampleEnv 600) 600 sampleContext [?f, ?b] st initialGlobals
      = runRulesIn (awaitCondition sampleEnv 600) 600 sampleContext [?b]
          (st\<lparr> events := events st @ [ConditionEvaluated (rule_id ?f)] \<rparr>) ?filtered" for st
    using sample_effective(2) af cf by (rule runRulesIn_error_reported)
  have rf: "evaluateRulesIn sampleEnv (sampleStore [?f, ?b] []) Map.empty 600 sampleContext
        initialGlobals
      = ((createResult BLOCKED
            [\<lparr> t_ruleId = ''b'', t_ruleName = ''b'', t_severity = ''HIGH'', t_action = ''BLOCK'' \<rparr>]
            ''too low'' None None None,
          [''grades'' \<mapsto> \<lparr> ce_rules = [?f, ?b], lastUpdated = 600 \<rparr>],
          [ExceptionChecked ''u1'' [''f'', ''b''], ConditionEvaluated ''f'',
           ConditionEvaluated ''b'']), ?filtered)"
    unfolding evaluateRulesIn_loop[OF sample_valid ff nef nf x] lf sample_block_runIn
    by (simp add: initialState_def sample_user conditionRule_sel sampleRule_sel)
  from 1 show ?thesis unfolding rf by (simp add: createResult_def)
qed

section \<open>The two evaluations compared\<close>

text \<open>
  When the texts that \<open>new Function\<close> runs leave the global object as they find it, so
  does the Condition Evaluator.
\<close>

lemma catchLog_quiet:
  assumes "snd (body g) = g"
  shows "snd (catchLog label body g) = g"
  using assms by (auto simp: catchLog_def split: prod.splits sum.splits option.splits)

lemma warnFalse_quiet: "snd (warnFalse label g) = g"
  by (simp add: warnFalse_def split: option.splits)

lemma safeEvaluate_quiet:
  assumes "\<forall>text c h. snd (runFunction env text c h) = h"
  shows "snd (safeEvaluate env clock expression ec g) = g"
  unfolding safeEvaluate_def
  by (rule catchLog_quiet) (simp add: Let_def assms)

lemma evaluateExpression_quiet:
  assumes "\<forall>text c h. snd (runFunction env text c h) = h"
  shows "snd (evaluateExpression env clock condition ctx g) = g"
  by (simp add: evaluateExpression_def catchLog_quiet safeEvaluate_quiet[OF assms])

lemma evaluateThreshold_quiet: "snd (evaluateThreshold env condition ctx g) = g"
  by (simp add: evaluateThreshold_def catchLog_quiet split: option.splits json.splits)

lemma evaluateTimeBased_quiet: "snd (evaluateTimeBased env clock condition ctx g) = g"
  by (simp add: evaluateTimeBased_def catchLog_quiet Let_def)

lemma fold_start_quiet:
  assumes "\<forall>c\<in>set cs. \<forall>h. snd (start c h) = h"
  shows "snd (fold (\<lambda>c (started, g1). case start c g1 of (p, g2) \<Rightarrow> (started @ [p], g2))
            cs (acc, g)) = g"
  using assms
proof (induction cs arbitrary: acc g)
  case Nil
  show ?case by simp
next
  case (Cons c cs)
  from Cons.prems have "snd (start c g) = g" by simp
  then obtain p where p: "start c g = (p, g)" by (cases "start c g") simp
  from Cons.prems have "\<forall>c\<in>set cs. \<forall>h. snd (start c h) = h" by simp
  from Cons.IH[OF this] p show ?case by simp
qed

lemma startCondition_quiet:
  "\<forall>text c h. snd (runFunction env text c h) = h
     \<Longrightarrow> snd (startCondition env clock copt ctx g) = g"
  "\<forall>text c h. snd (runFunction env text c h) = h
     \<Longrightarrow> snd (evaluateComposite env clock condition ctx g) = g"
proof (induction env clock copt ctx g and env clock condition ctx g
    rule: startCondition_evaluateComposite.induct)
  case (1 env clock ctx g)
  have "snd (catchLog ''Condition evaluation error:''
               (warnFalse ''Invalid condition: missing type'') g) = g"
    by (rule catchLog_quiet) (rule warnFalse_quiet)
  then show ?case by (simp add: case_prod_beta)
next
  case (2 env clock condition ctx g)
  show ?case
  proof (cases "c_type condition = Some ''composite''")
    case True
    with "2.IH" "2.prems" show ?thesis by (simp del: evaluateComposite.simps)
  next
    case False
    have "snd (catchLog ''Condition evaluation error:'' body g) = g"
      if "body = (if falsy (c_type condition) then warnFalse ''Invalid condition: missing type''
                 else if c_type condition = Some ''expression'' then
                   evaluateExpression env clock condition ctx
                 else if c_type condition = Some ''threshold'' then
                   evaluateThreshold env condition ctx
                 else if c_type condition = Some ''time_based'' then
                   evaluateTimeBased env clock condition ctx
                 else if c_type condition = Some ''role_based'' then
                   Pair (evaluateRoleBased condition ctx)
                 else if c_type condition = Some ''permission_based'' then
                   Pair (evaluatePermissionBased condition ctx)
                 else warnFalse (''Unknown condition type: '' @ the (c_type condition)))" for body
      by (rule catchLog_quiet)
         (simp add: that warnFalse_quiet evaluateExpression_quiet[OF "2.prems"]
            evaluateThreshold_quiet evaluateTimeBased_quiet)
    with False show ?thesis by (simp add: case_prod_beta del: evaluateComposite.simps)
  qed
next
  case (3 env clock condition ctx g)
  show ?case
  proof (cases "c_conditions condition")
    case None
    then show ?thesis by simp
  next
    case (Some cs)
    show ?thesis
    proof (cases "cs = []")
      case True
      with Some show ?thesis by simp
    next
      case False
      from "3.IH"[OF Some False] "3.prems"
      have "\<forall>c\<in>set cs. \<forall>h. snd (startCondition env clock (Some c) ctx h) = h" by blast
      then have "snd (fold (\<lambda>c (started, g1).
                          case startCondition env clock (Some c) ctx g1 of
                            (p, g2) \<Rightarrow> (started @ [p], g2))
                    cs ([], g)) = g"
        by (rule fold_start_quiet)
      with Some False show ?thesis by (simp add: case_prod_beta)
    qed
  qed
qed

lemma awaitCondition_quiet:
  assumes "\<forall>text c h. snd (runFunction env text c h) = h"
  shows "awaitCondition env clock condition ctx initialGlobals
     = (evaluateCondition env clock condition ctx, initialGlobals)"
  using startCondition_quiet(1)[OF assms, of clock condition ctx initialGlobals]
  by (simp add: evaluateCondition_def awaitCondition_def case_prod_beta)

text \<open>
  Then the evaluation against a global object that nothing has touched is the evaluation of
  \<open>processRule\<close>, \<open>runRules\<close> and \<open>evaluateRules\<close>, and it leaves the global object
  untouched.
\<close>

lemma processRuleIn_quiet:
  assumes "ev (conditionPayload r) ctx initialGlobals = (ev0 (conditionPayload r) ctx, initialGlobals)"
  shows "processRuleIn ev clock ctx r st initialGlobals =
     ((case processRule ev0 clock ctx r st of
         Continue st' \<Rightarrow> Next st'
       | Return result evs \<Rightarrow> Done result evs), initialGlobals)"
  using assms
  by (auto simp: processRuleIn_def processRule_def Let_def ruleCatch_def applyActionIn_def
      applyAction_def initialGlobals_def split: sum.splits)

lemma runRulesIn_quiet:
  assumes "\<forall>c. ev c ctx initialGlobals = (ev0 c ctx, initialGlobals)"
  shows "runRulesIn ev clock ctx rules st initialGlobals
     = (runRules ev0 clock ctx rules st, initialGlobals)"
proof (induction rules arbitrary: st)
  case Nil
  show ?case by simp
next
  case (Cons r rules)
  from assms have "ev (conditionPayload r) ctx initialGlobals
      = (ev0 (conditionPayload r) ctx, initialGlobals)" by simp
  then have "processRuleIn ev clock ctx r st initialGlobals =
     ((case processRule ev0 clock ctx r st of
         Continue st' \<Rightarrow> Next st'
       | Return result evs \<Rightarrow> Done result evs), initialGlobals)"
    by (rule processRuleIn_quiet)
  with Cons.IH show ?case by (simp split: Outcome.splits)
qed

lemma evaluateRulesIn_quiet:
  assumes "\<forall>text c h. snd (runFunction env text c h) = h"
  shows "evaluateRulesIn env store rulesCache clock ctx initialGlobals
     = (evaluateRules env store rulesCache clock ctx, initialGlobals)"
proof -
  have x: "checkRuleExceptionIn store clock u ids initialGlobals
      = (Inr (checkRuleException store clock u ids), initialGlobals)" for u ids
    by (cases "failure store")
       (simp_all add: checkRuleExceptionIn_def checkRuleException_def catchLog_def initialGlobals_def)
  have r: "runRulesIn (awaitCondition env clock) clock ctx rules st initialGlobals
      = (runRules (evaluateCondition env clock) clock ctx rules st, initialGlobals)" for rules st
    by (rule runRulesIn_quiet) (simp add: awaitCondition_quiet[OF assms])
  show ?thesis
    by (simp add: evaluateRulesIn_def evaluateRules_def evaluateRulesWith_def x r Let_def
        split: prod.splits sum.splits)
qed

text \<open>
  What is left of the contract of \<open>evaluateCondition\<close>: when the texts that
  \<open>new Function\<close> runs leave the global object as they find it and the console returns, the
  call returns a boolean.
\<close>

lemma catchLog_returns:
  assumes "snd (body g) = g" "console_error g label = None"
  shows "\<exists>b. fst (catchLog label body g) = Inr b"
  using assms by (cases "body g") (auto simp: catchLog_def split: sum.splits)

lemma promiseAll_returns:
  assumes "\<forall>r\<in>set rs. \<exists>b. r = Inr b"
  shows "\<exists>bs. promiseAll rs = Inr bs"
  using assms
proof (induction rs)
  case Nil
  show ?case by simp
next
  case (Cons r rs)
  then obtain b bs where "r = Inr b" "promiseAll rs = Inr bs" by auto
  then show ?case by simp
qed

lemma fold_start_returns:
  assumes "\<forall>c\<in>set cs. \<forall>h. snd (start c h) = h"
    and "\<forall>c\<in>set cs. \<exists>b. fst (start c g) s = Inr b"
    and "\<forall>p\<in>set acc. \<exists>b. p s = Inr b"
  shows "\<forall>p\<in>set (fst (fold (\<lambda>c (started, g1). case start c g1 of (p, g2) \<Rightarrow> (started @ [p], g2))
            cs (acc, g))). \<exists>b. p s = Inr b"
  using assms
proof (induction cs arbitrary: acc)
  case Nil
  then show ?case by simp
next
  case (Cons c cs)
  from Cons.prems(1) have "snd (start c g) = g" by simp
  then obtain p where p: "start c g = (p, g)" by (cases "start c g") simp
  with Cons.prems(2) have "\<exists>b. p s = Inr b" by auto
  with Cons.prems(3) have acc: "\<forall>q\<in>set (acc @ [p]). \<exists>b. q s = Inr b" by auto
  from Cons.prems have "\<forall>c\<in>set cs. \<forall>h. snd (start c h) = h"
    and "\<forall>c\<in>set cs. \<exists>b. fst (start c g) s = Inr b" by simp_all
  from Cons.IH[OF this acc] p show ?case by simp
qed

lemma startCondition_returns:
  "\<forall>text c h. snd (runFunction env text c h) = h \<Longrightarrow> console_error g = (\<lambda>label. None)
     \<Longrightarrow> console_warn g = (\<lambda>label. None) \<Longrightarrow> console_error s = (\<lambda>label. None)
     \<Longrightarrow> \<exists>b. fst (startCondition env clock copt ctx g) s = Inr b"
  "\<forall>text c h. snd (runFunction env text c h) = h \<Longrightarrow> console_error g = (\<lambda>label. None)
     \<Longrightarrow> console_warn g = (\<lambda>label. None) \<Longrightarrow> console_error s = (\<lambda>label. None)
     \<Longrightarrow> \<exists>b. fst (evaluateComposite env clock condition ctx g) s = Inr b"
proof (induction env clock copt ctx g and env clock condition ctx g
    rule: startCondition_evaluateComposite.induct)
  case (1 env clock ctx g)
  have "\<exists>b. fst (catchLog ''Condition evaluation error:''
               (warnFalse ''Invalid condition: missing type'') g) = Inr b"
    by (rule catchLog_returns) (simp_all add: warnFalse_quiet "1.prems")
  then show ?case by (simp add: case_prod_beta)
next
  case (2 env clock condition ctx g)
  show ?case
  proof (cases "c_type condition = Some ''composite''")
    case True
    with "2.IH" "2.prems" show ?thesis by (simp del: evaluateComposite.simps)
  next
    case False
    have "\<exists>b. fst (catchLog ''Condition evaluation error:'' body g) = Inr b"
      if "body = (if falsy (c_type condition) then warnFalse ''Invalid condition: missing type''
                 else if c_type condition = Some ''expression'' then
                   evaluateExpression env clock condition ctx
                 else if c_type condition = Some ''threshold'' then
                   evaluateThreshold env condition ctx
                 else if c_type condition = Some ''time_based'' then
                   evaluateTimeBased env clock condition ctx
                 else if c_type condition = Some ''role_based'' then
                   Pair (evaluateRoleBased condition ctx)
                 else if c_type condition = Some ''permission_based'' then
                   Pair (evaluatePermissionBased condition ctx)
                 else warnFalse (''Unknown condition type: '' @ the (c_type condition)))" for body
      by (rule catchLog_returns)
         (simp_all add: that warnFalse_quiet evaluateExpression_quiet[OF "2.prems"(1)]
            evaluateThreshold_quiet evaluateTimeBased_quiet "2.prems")
    with False show ?thesis by (simp add: case_prod_beta del: evaluateComposite.simps)
  qed
next
  case (3 env clock condition ctx g)
  show ?case
  proof (cases "c_conditions condition")
    case None
    then show ?thesis by auto
  next
    case (Some cs)
    show ?thesis
    proof (cases "cs = []")
      case True
      with Some show ?thesis by auto
    next
      case False
      let ?started = "fold (\<lambda>c (started, g1).
                          case startCondition env clock (Some c) ctx g1 of
                            (p, g2) \<Rightarrow> (started @ [p], g2))
                    cs ([], g)"
      have q: "\<forall>c\<in>set cs. \<forall>h. snd (startCondition env clock (Some c) ctx h) = h"
        using startCondition_quiet(1)[OF "3.prems"(1)] by blast
      from "3.IH"[OF Some False] "3.prems"
      have r: "\<forall>c\<in>set cs. \<exists>b. fst (startCondition env clock (Some c) ctx g) s = Inr b"
        by blast
      have "\<forall>p\<in>set (fst ?started). \<exists>b. p s = Inr b"
        using q r by (rule fold_start_returns) simp
      then have "\<forall>r\<in>set (map (\<lambda>p. p s) (fst ?started)). \<exists>b. r = Inr b" by auto
      then obtain bs where bs: "promiseAll (map (\<lambda>p. p s) (fst ?started)) = Inr bs"
        using promiseAll_returns by blast
      with Some False "3.prems"(4) show ?thesis
        by (auto simp: case_prod_beta catchLog_def)
    qed
  qed
qed

lemma evaluateCondition_returns_when_quiet:
  assumes "\<forall>text c h. snd (runFunction env text c h) = h"
  shows "\<exists>b. evaluateCondition env clock condition ctx = Inr b"
proof -
  have c: "console_error initialGlobals = (\<lambda>label. None)"
    "console_warn initialGlobals = (\<lambda>label. None)"
    by (simp_all add: initialGlobals_def)
  from startCondition_quiet(1)[OF assms, of clock condition ctx initialGlobals]
    startCondition_returns(1)[OF assms c c(1), of clock condition ctx]
  show ?thesis by (auto simp: evaluateCondition_def awaitCondition_def case_prod_beta)
qed

text \<open>
  In a runtime that nothing has touched, the failures that the evaluator meets on its own
  give \<open>false\<close>: a missing or unknown condition type, a threshold on a field that neither
  the data nor \<open>Object.prototype\<close> has, an unknown operator, a time bound that is not a
  number, a date that does not parse. A clock range with well-formed bounds is tested
  against the clock of day of the timestamp.
\<close>

lemma sample_conditions:
  "evaluateCondition sampleEnv 600 None sampleContext = Inr False"
  "evaluateCondition sampleEnv 600 (Some (typedCondition [])) sampleContext = Inr False"
  "evaluateCondition sampleEnv 600 (Some (typedCondition ''regex'')) sampleContext = Inr False"
  "evaluateCondition sampleEnv 600 (Some (thresholdCondition ''absent'' ''lt'' (JNum 40)))
     sampleContext = Inr False"
  "evaluateCondition sampleEnv 600 (Some (thresholdCondition ''percentage'' ''approx'' (JNum 40)))
     sampleContext = Inr False"
  "evaluateCondition sampleEnv 600 (Some (timeCondition ''ab:cd'' ''17:00'')) sampleContext
     = Inr False"
  "evaluateCondition sampleEnv 600 (Some (timeCondition ''00:00'' ''17:30'')) sampleContext
     = Inr True"
  "evaluateCondition sampleEnv 600 (Some (timeCondition ''08:00'' ''17:30'')) sampleContext
     = Inr False"
  "evaluateCondition sampleEnv 600 (Some (dateCondition (JStr ''soon'') (JStr ''later'')))
     sampleContext = Inr False"
  by (simp_all add: evaluateCondition_def awaitCondition_def typedCondition_def
      thresholdCondition_def timeCondition_def dateCondition_def sampleContext_def falsy_def
      catchLog_def warnFalse_def initialGlobals_def evaluateThreshold_def thresholdSwitch_def
      getProperty_def objectPrototype_def evaluateTimeBased_def evaluationTime_def clockRange_def
      numberAt_def sampleEnv_def parseDecimal_def digitValue_def Let_def)

text \<open>The loop handed the same two rules in either order.\<close>

lemma sample_handed_order:
  "message (fst (runRules (evaluateCondition sampleEnv 600) 600 sampleContext
        [sampleRule ''w'' 5 ''WARN'' (sampleAction ''careful'' None),
         sampleRule ''m'' 20 ''MODIFY'' (sampleAction ''capped'' (Some capMods))]
        (initialState []))) = ''careful''"
  "message (fst (runRules (evaluateCondition sampleEnv 600) 600 sampleContext
        [sampleRule ''m'' 20 ''MODIFY'' (sampleAction ''capped'' (Some capMods)),
         sampleRule ''w'' 5 ''WARN'' (sampleAction ''careful'' None)]
        (initialState []))) = ''capped''"
  by (simp_all add: sample_processRule applyAction_def sampleRule_sel Let_def
        initialState_def createResult_def messageOr_def sampleAction_def falsy_def
        payloadModifications_def)

section \<open>Properties\<close>






text \<open>
  C3 (as amended). When the context is valid, the cache or store yields a rule list, the
  store answers the exception lookup, and an exception row of the user is active, covers
  the identifier of a rule of the list and has the clock reading within its window, then the
  result is \<open>ALLOWED\<close> with message \<open>User has rule exception\<close> and no triggered rule,
  and the only event of the call is the exception check: no condition is evaluated.
\<close>

theorem exception_short_circuits:
  assumes "user_id (user ctx) \<noteq> []" "ctx_moduleName ctx \<noteq> []" "action ctx \<noteq> []"
    and "getCachedRules store rulesCache clock (ctx_moduleName ctx) = (Inr rules, cache')"
    and "failure store = None" "e \<in> set (exceptionTable store)"
      "ex_userId e = user_id (user ctx)" "ex_ruleId e \<in> set (map rule_id rules)"
      "ex_isActive e" "ex_effectiveFrom e \<le> clock" "ex_effectiveTo e = Some t" "clock \<le> t"
  shows "decision (fst (evaluateRules env store rulesCache clock ctx)) = ALLOWED
     \<and> message (fst (evaluateRules env store rulesCache clock ctx)) = ''User has rule exception''
     \<and> triggeredRules (fst (evaluateRules env store rulesCache clock ctx)) = []
     \<and> snd (snd (evaluateRules env store rulesCache clock ctx)) =
          [ExceptionChecked (user_id (user ctx)) (map rule_id rules)]"
proof -
  from assms(8) have ne: "rules \<noteq> []" by auto
  from checkRuleException_holds[OF assms(5-12)]
  have "checkRuleException store clock (user_id (user ctx)) (map rule_id rules)" .
  from evaluateRulesWith_exception[OF assms(1-4) ne this] show ?thesis
    by (simp add: evaluateRules_def createResult_def)
qed

theorem exception_short_circuits_witness:
  "message (fst (evaluateRules sampleEnv
      (sampleStore [sampleRule ''b'' 10 ''BLOCK'' (sampleAction ''too low'' None)] [sampleException])
      Map.empty 600 sampleContext)) = ''User has rule exception''
   \<and> snd (snd (evaluateRules sampleEnv
      (sampleStore [sampleRule ''b'' 10 ''BLOCK'' (sampleAction ''too low'' None)] [sampleException])
      Map.empty 600 sampleContext)) = [ExceptionChecked ''u1'' [''b'']]"
proof -
  let ?store = "sampleStore [sampleRule ''b'' 10 ''BLOCK'' (sampleAction ''too low'' None)]
       [sampleException]"
  have f: "failure ?store = None" and m: "sampleException \<in> set (exceptionTable ?store)"
    by (simp_all add: sampleStore_def)
  have u: "ex_userId sampleException = user_id (user sampleContext)"
    by (simp add: sampleException_def sampleContext_def)
  have r: "ex_ruleId sampleException
      \<in> set (map rule_id [sampleRule ''b'' 10 ''BLOCK'' (sampleAction ''too low'' None)])"
    by (simp add: sampleException_def sampleRule_def)
  have a: "ex_isActive sampleException" "ex_effectiveFrom sampleException \<le> 600"
    "ex_effectiveTo sampleException = Some 1000" "(600::int) \<le> 1000"
    by (simp_all add: sampleException_def)
  from exception_short_circuits[OF sample_valid sample_fetch f m u r a]
  show ?thesis by (simp add: sampleContext_def sampleRule_def)
qed

text \<open>Against C3 as stated: the message of the code begins with a capital letter, and the
  result does not carry the message \<open>user has rule exception\<close>.\<close>

theorem exception_message_counterexample:
  "checkRuleException
      (sampleStore [sampleRule ''b'' 10 ''BLOCK'' (sampleAction ''too low'' None)] [sampleException])
      600 ''u1'' [''b'']
   \<and> decision (fst (evaluateRules sampleEnv
      (sampleStore [sampleRule ''b'' 10 ''BLOCK'' (sampleAction ''too low'' None)] [sampleException])
      Map.empty 600 sampleContext)) = ALLOWED
   \<and> message (fst (evaluateRules sampleEnv
      (sampleStore [sampleRule ''b'' 10 ''BLOCK'' (sampleAction ''too low'' None)] [sampleException])
      Map.empty 600 sampleContext)) \<noteq> ''user has rule exception''"
proof -
  let ?rules = "[sampleRule ''b'' 10 ''BLOCK'' (sampleAction ''too low'' None)]"
  let ?store = "sampleStore ?rules [sampleException]"
  have x: "checkRuleException ?store 600 ''u1'' [''b'']"
    by (simp add: checkRuleException_def sampleStore_def sampleException_def)
  then have x': "checkRuleException ?store 600 (user_id (user sampleContext)) (map rule_id ?rules)"
    by (simp add: sampleContext_def sampleRule_def)
  have ne: "?rules \<noteq> []" by simp
  from evaluateRulesWith_exception[OF sample_valid sample_fetch ne x'] x
  show ?thesis by (simp add: evaluateRules_def createResult_def)
qed

text \<open>
  C4. The loop evaluates the rules in the order of the list that it is handed and does not
  sort: handed the rules \<open>w\<close> (priority 5, warns) and \<open>m\<close> (priority 20, modifies) in
  ascending order of priority it returns the message of \<open>w\<close>, and handed the same rules in
  the other order it returns the message of \<open>m\<close>. The order comes from the query of the
  store, which is in ascending order of priority and then of creation time: of the rows \<open>m\<close>
  and \<open>w\<close>, \<open>w\<close> is evaluated first. But two candidate rules \<open>m1\<close> and \<open>m2\<close> with the
  same priority and the same creation time are evaluated in the order of the rows of the
  table: exchanging the two rows exchanges them in the list of triggered rules and changes
  the modifications of the result, the value of \<open>percentage\<close> being 50 in one order and 100
  in the other. The result depends on more than the set of rules.
\<close>

theorem rule_order_changes_result:
  "priority (sampleRule ''m1'' 5 ''MODIFY'' (sampleAction ''capped'' (Some capMods)))
     = priority (sampleRule ''m2'' 5 ''MODIFY'' (sampleAction ''half'' (Some halfMods)))
   \<and> createdAt (sampleRule ''m1'' 5 ''MODIFY'' (sampleAction ''capped'' (Some capMods)))
     = createdAt (sampleRule ''m2'' 5 ''MODIFY'' (sampleAction ''half'' (Some halfMods)))
   \<and> mset [sampleRule ''m2'' 5 ''MODIFY'' (sampleAction ''half'' (Some halfMods)),
         sampleRule ''m1'' 5 ''MODIFY'' (sampleAction ''capped'' (Some capMods))]
     = mset [sampleRule ''m1'' 5 ''MODIFY'' (sampleAction ''capped'' (Some capMods)),
             sampleRule ''m2'' 5 ''MODIFY'' (sampleAction ''half'' (Some halfMods))]
   \<and> map t_ruleId (triggeredRules (fst (evaluateRules sampleEnv
        (sampleStore [sampleRule ''m1'' 5 ''MODIFY'' (sampleAction ''capped'' (Some capMods)),
                      sampleRule ''m2'' 5 ''MODIFY'' (sampleAction ''half'' (Some halfMods))] [])
        Map.empty 600 sampleContext))) = [''m1'', ''m2'']
   \<and> map t_ruleId (triggeredRules (fst (evaluateRules sampleEnv
        (sampleStore [sampleRule ''m2'' 5 ''MODIFY'' (sampleAction ''half'' (Some halfMods)),
                      sampleRule ''m1'' 5 ''MODIFY'' (sampleAction ''capped'' (Some capMods))] [])
        Map.empty 600 sampleContext))) = [''m2'', ''m1'']
   \<and> modifications (fst (evaluateRules sampleEnv
        (sampleStore [sampleRule ''m1'' 5 ''MODIFY'' (sampleAction ''capped'' (Some capMods)),
                      sampleRule ''m2'' 5 ''MODIFY'' (sampleAction ''half'' (Some halfMods))] [])
        Map.empty 600 sampleContext)) = Some [''percentage'' \<mapsto> JNum 50]
   \<and> modifications (fst (evaluateRules sampleEnv
        (sampleStore [sampleRule ''m2'' 5 ''MODIFY'' (sampleAction ''half'' (Some halfMods)),
                      sampleRule ''m1'' 5 ''MODIFY'' (sampleAction ''capped'' (Some capMods))] [])
        Map.empty 600 sampleContext)) = Some [''percentage'' \<mapsto> JNum 100]
   \<and> map t_ruleId (triggeredRules (fst (evaluateRules sampleEnv
        (sampleStore [sampleRule ''m'' 20 ''MODIFY'' (sampleAction ''capped'' (Some capMods)),
                      sampleRule ''w'' 5 ''WARN'' (sampleAction ''careful'' None)] [])
        Map.empty 600 sampleContext))) = [''w'', ''m'']
   \<and> message (fst (runRules (evaluateCondition sampleEnv 600) 600 sampleContext
        [sampleRule ''w'' 5 ''WARN'' (sampleAction ''careful'' None),
         sampleRule ''m'' 20 ''MODIFY'' (sampleAction ''capped'' (Some capMods))]
        (initialState []))) = ''careful''
   \<and> message (fst (runRules (evaluateCondition sampleEnv 600) 600 sampleContext
        [sampleRule ''m'' 20 ''MODIFY'' (sampleAction ''capped'' (Some capMods)),
         sampleRule ''w'' 5 ''WARN'' (sampleAction ''careful'' None)]
        (initialState []))) = ''capped''"
  using sample_ascending sample_handed_order
  by (simp add: sample_modify_pair createResult_def capMods_def halfMods_def
      sampleRule_sel sampleRule_createdAt)

text \<open>
  C5. The expression \<open>(console.error = 0) + x.y\<close> passes the sanitiser of \<open>safeEvaluate\<close>
  unchanged. Run as the body of a function, it replaces \<open>console.error\<close> and throws; the
  \<open>catch\<close> of \<open>safeEvaluate\<close>, that of \<open>evaluateExpression\<close> and that of
  \<open>evaluateCondition\<close> each call \<open>console.error\<close> and throw in turn, so that
  \<open>evaluateCondition\<close> throws to its caller instead of returning \<open>false\<close>. And a threshold
  on the field \<open>constructor\<close>, which the resource data does not have, is not \<open>false\<close>: the
  lookup finds the property that every object inherits, and the operator \<open>ne\<close> answers
  \<open>true\<close>.
\<close>

theorem evaluateCondition_throws:
  "sanitize breakConsole = breakConsole
   \<and> evaluateCondition sampleEnv 600 (Some (expressionCondition breakConsole)) sampleContext
       = Inl (JsError ''console.error is not a function'')
   \<and> the (resourceData sampleContext) ''constructor'' = None
   \<and> evaluateCondition sampleEnv 600 (Some (thresholdCondition ''constructor'' ''ne'' (JNum 40)))
       sampleContext = Inr True"
  by (simp add: sanitize_breakConsole evaluateCondition_def await_breakConsole)
     (simp add: awaitCondition_def thresholdCondition_def sampleContext_def falsy_def
        evaluateThreshold_def thresholdSwitch_def catchLog_def getProperty_def objectPrototype_def)

text \<open>
  C6. Rule \<open>f\<close> has the expression \<open>(console.error = 0) + x.y\<close> as its condition and is
  followed by the rule \<open>b\<close>, which blocks. Evaluating the condition of \<open>f\<close> throws. The
  \<open>catch\<close> of the loop reports the error with \<open>console.error\<close>, which throws in turn, and
  the error leaves the loop: the condition of \<open>b\<close> is not evaluated and the result is the
  error result of \<open>evaluateRules\<close>, with no triggered rule. Had the condition of \<open>f\<close> been
  false (\<open>percentage > 40\<close> on the same data), the evaluation would have gone on to \<open>b\<close> and
  the result would be \<open>BLOCKED\<close>.
\<close>

theorem rule_error_ends_evaluation:
  "evaluateCondition sampleEnv 600
      (conditionPayload (conditionRule ''f'' 5 (expressionCondition breakConsole))) sampleContext
     = Inl (JsError ''console.error is not a function'')
   \<and> fst (fst (evaluateRulesIn sampleEnv
        (sampleStore [conditionRule ''f'' 5 (expressionCondition breakConsole),
                      sampleRule ''b'' 10 ''BLOCK'' (sampleAction ''too low'' None)] [])
        Map.empty 600 sampleContext initialGlobals))
     = errorResult ''console.error is not a function''
   \<and> snd (snd (fst (evaluateRulesIn sampleEnv
        (sampleStore [conditionRule ''f'' 5 (expressionCondition breakConsole),
                      sampleRule ''b'' 10 ''BLOCK'' (sampleAction ''too low'' None)] [])
        Map.empty 600 sampleContext initialGlobals)))
     = [ExceptionChecked ''u1'' [''f'', ''b''], ConditionEvaluated ''f'']
   \<and> evaluateCondition sampleEnv 600
      (conditionPayload (conditionRule ''f'' 5 (thresholdCondition ''percentage'' ''gt'' (JNum 40))))
      sampleContext = Inr False
   \<and> decision (fst (fst (evaluateRulesIn sampleEnv
        (sampleStore [conditionRule ''f'' 5 (thresholdCondition ''percentage'' ''gt'' (JNum 40)),
                      sampleRule ''b'' 10 ''BLOCK'' (sampleAction ''too low'' None)] [])
        Map.empty 600 sampleContext initialGlobals))) = BLOCKED
   \<and> map t_ruleId (triggeredRules (fst (fst (evaluateRulesIn sampleEnv
        (sampleStore [conditionRule ''f'' 5 (thresholdCondition ''percentage'' ''gt'' (JNum 40)),
                      sampleRule ''b'' 10 ''BLOCK'' (sampleAction ''too low'' None)] [])
        Map.empty 600 sampleContext initialGlobals)))) = [''b'']"
proof -
  let ?b = "sampleRule ''b'' 10 ''BLOCK'' (sampleAction ''too low'' None)"
  let ?f = "conditionRule ''f'' 5 (expressionCondition breakConsole)"
  let ?n = "conditionRule ''f'' 5 (thresholdCondition ''percentage'' ''gt'' (JNum 40))"
  let ?broken = "initialGlobals\<lparr> console_error :=
      (\<lambda>label. Some (JsError ''console.error is not a function'')) \<rparr>"
  have nf: "failure (sampleStore rs []) = None" for rs by (simp add: sampleStore_def)
  have x: "\<not> checkRuleException (sampleStore rs []) 600 u ids" for rs u ids
    by (simp add: checkRuleException_def sampleStore_def)
  have ff: "getCachedRules (sampleStore [?f, ?b] []) Map.empty 600 (ctx_moduleName sampleContext) =
      (Inr [?f, ?b], [''grades'' \<mapsto> \<lparr> ce_rules = [?f, ?b], lastUpdated = 600 \<rparr>])"
    by (rule sample_fetch_condition) simp
  have fn: "getCachedRules (sampleStore [?n, ?b] []) Map.empty 600 (ctx_moduleName sampleContext) =
      (Inr [?n, ?b], [''grades'' \<mapsto> \<lparr> ce_rules = [?n, ?b], lastUpdated = 600 \<rparr>])"
    by (rule sample_fetch_condition) simp
  have nef: "[?f, ?b] \<noteq> []" and nen: "[?n, ?b] \<noteq> []" by simp_all
  have af: "awaitCondition sampleEnv 600 (conditionPayload ?f) sampleContext initialGlobals
      = (Inl (JsError ''console.error is not a function''), ?broken)"
    by (simp add: conditionRule_sel await_breakConsole)
  have an: "awaitCondition sampleEnv 600 (conditionPayload ?n) sampleContext initialGlobals
      = (Inr False, initialGlobals)"
    by (simp add: conditionRule_sel await_false)
  have cf: "console_error ?broken (''Error evaluating rule '' @ rule_id ?f @ '':'')
      = Some (JsError ''console.error is not a function'')" by simp
  have 1: "evaluateCondition sampleEnv 600 (conditionPayload ?f) sampleContext
     = Inl (JsError ''console.error is not a function'')"
    by (simp add: evaluateCondition_def af)
  have 4: "evaluateCondition sampleEnv 600 (conditionPayload ?n) sampleContext = Inr False"
    by (simp add: evaluateCondition_def an)
  have lf: "runRulesIn (awaitCondition sampleEnv 600) 600 sampleContext [?f, ?b] st initialGlobals
      = ((errorResult (errorMessage (JsError ''console.error is not a function'')),
          events st @ [ConditionEvaluated (rule_id ?f)]), ?broken)" for st
    using sample_effective(2) af cf by (rule runRulesIn_error_escapes)
  have ln: "runRulesIn (awaitCondition sampleEnv 600) 600 sampleContext [?n, ?b] st initialGlobals
      = runRulesIn (awaitCondition sampleEnv 600) 600 sampleContext [?b]
          (st\<lparr> events := events st @ [ConditionEvaluated (rule_id ?n)] \<rparr>) initialGlobals" for st
    using sample_effective(2) an by (rule runRulesIn_false)
  have rf: "evaluateRulesIn sampleEnv (sampleStore [?f, ?b] []) Map.empty 600 sampleContext
        initialGlobals
      = ((errorResult ''console.error is not a function'',
          [''grades'' \<mapsto> \<lparr> ce_rules = [?f, ?b], lastUpdated = 600 \<rparr>],
          [ExceptionChecked ''u1'' [''f'', ''b''], ConditionEvaluated ''f'']), ?broken)"
    unfolding evaluateRulesIn_loop[OF sample_valid ff nef nf x] lf
    by (simp add: initialState_def sample_user conditionRule_sel sampleRule_sel)
  have rn: "evaluateRulesIn sampleEnv (sampleStore [?n, ?b] []) Map.empty 600 sampleContext
        initialGlobals
      = ((createResult BLOCKED
            [\<lparr> t_ruleId = ''b'', t_ruleName = ''b'', t_severity = ''HIGH'', t_action = ''BLOCK'' \<rparr>]
            ''too low'' None None None,
          [''grades'' \<mapsto> \<lparr> ce_rules = [?n, ?b], lastUpdated = 600 \<rparr>],
          [ExceptionChecked ''u1'' [''f'', ''b''], ConditionEvaluated ''f'',
           ConditionEvaluated ''b'']), initialGlobals)"
    unfolding evaluateRulesIn_loop[OF sample_valid fn nen nf x] ln sample_block_runIn
    by (simp add: initialState_def sample_user conditionRule_sel sampleRule_sel)
  from 1 4 show ?thesis unfolding rf rn by (simp add: createResult_def)
qed

text \<open>
  C7. \<open>updateRule\<close> on a rule that expires at 5000, with a DTO that gives a new name and
  nothing else: the created row has the version of the parent plus one, the identifier of
  the parent as \<open>parentRuleId\<close>, the new name and the \<open>effectiveFrom\<close> of the parent, and the
  parent is deactivated; but the \<open>effectiveTo\<close> of the created row is empty, where the
  parent has 5000: \<open>effectiveTo\<close> is taken from the DTO alone and is not copied.
\<close>

theorem updateRule_drops_effectiveTo:
  "\<not> isl (updateRule (sampleStore [expiringRule] []) Map.empty 600 ''p2'' ''p'' renameDTO ''admin'')
   \<and> version (fst (projr (updateRule (sampleStore [expiringRule] []) Map.empty 600 ''p2'' ''p''
         renameDTO ''admin''))) = version expiringRule + 1
   \<and> parentRuleId (fst (projr (updateRule (sampleStore [expiringRule] []) Map.empty 600 ''p2'' ''p''
         renameDTO ''admin''))) = Some ''p''
   \<and> name (fst (projr (updateRule (sampleStore [expiringRule] []) Map.empty 600 ''p2'' ''p''
         renameDTO ''admin''))) = ''X''
   \<and> effectiveFrom (fst (projr (updateRule (sampleStore [expiringRule] []) Map.empty 600 ''p2'' ''p''
         renameDTO ''admin''))) = effectiveFrom expiringRule
   \<and> effectiveTo expiringRule = Some 5000
   \<and> effectiveTo (fst (projr (updateRule (sampleStore [expiringRule] []) Map.empty 600 ''p2'' ''p''
         renameDTO ''admin''))) = None
   \<and> map isActive (ruleTable (fst (snd (projr (updateRule (sampleStore [expiringRule] [])
         Map.empty 600 ''p2'' ''p'' renameDTO ''admin''))))) = [False, True]"
  by (simp add: updateRule_def sampleStore_def expiringRule_def renameDTO_def sampleRule_def
      orElse_def falsy_def Let_def)






text \<open>
  C10. When the context is valid and the cache or store yields the empty rule list, the
  result is \<open>ALLOWED\<close> with message \<open>No active rules found\<close> and no triggered rule, and
  the call has no event: the Exception Checker is not consulted.
\<close>

theorem no_rules_allowed:
  assumes "user_id (user ctx) \<noteq> []" "ctx_moduleName ctx \<noteq> []" "action ctx \<noteq> []"
    and "getCachedRules store rulesCache clock (ctx_moduleName ctx) = (Inr [], cache')"
  shows "decision (fst (evaluateRules env store rulesCache clock ctx)) = ALLOWED
     \<and> message (fst (evaluateRules env store rulesCache clock ctx)) = ''No active rules found''
     \<and> triggeredRules (fst (evaluateRules env store rulesCache clock ctx)) = []
     \<and> snd (snd (evaluateRules env store rulesCache clock ctx)) = []"
  using assms by (simp add: evaluateRules_def evaluateRulesWith_def createResult_def)

theorem no_rules_allowed_witness:
  "message (fst (evaluateRules sampleEnv (sampleStore [] [sampleException]) Map.empty 600
      sampleContext)) = ''No active rules found''
   \<and> snd (snd (evaluateRules sampleEnv (sampleStore [] [sampleException]) Map.empty 600
      sampleContext)) = []"
proof -
  have c: "getCachedRules (sampleStore [] [sampleException]) Map.empty 600
       (ctx_moduleName sampleContext) =
      (Inr [], [''grades'' \<mapsto> \<lparr> ce_rules = [], lastUpdated = 600 \<rparr>])"
    by (simp add: getCachedRules_def findManyActive_def isCandidate_def sampleStore_def sampleContext_def)
  from no_rules_allowed[OF sample_valid c] show ?thesis by simp
qed

end
